theory Spec2Isabelle
  imports Main "HOL-Library.Sublist" "HOL-Library.AList"
begin

section \<open>Results, errors and the outside world\<close>

text \<open>
  A Go call either returns or panics (a nil dereference, an index out of range).  A
  returned \<open>error\<close> is \<open>error option\<close> (\<open>None\<close> is Go's \<open>nil\<close>); a returned pair
  \<open>(value, error)\<close> is \<open>error + value\<close>, since every caller below reads the value only
  when the error is nil.  A Go pointer that may be nil is an \<open>option\<close>.
\<close>

datatype 'a outcome = Panic | Return 'a

text \<open>
  The sentinel errors of package models that the three files name, \<open>errutil.Wrap\<close>, and
  \<open>OtherError\<close> for whatever error a collaborator (bus handler, guardian, JSON encoder)
  hands back.
\<close>

datatype error =
    ErrDashboardTitleEmpty
  | ErrDashboardFolderCannotHaveParent
  | ErrDashboardFolderNameExists
  | ErrDashboardInvalidUid
  | ErrDashboardUidToLong
  | ErrDashboardUpdateAccessDenied
  | ErrDashboardCannotSaveProvisionedDashboard
  | ErrDashboardCannotDeleteProvisionedDashboard
  | ErrDashboardGitlabSync
  | Wrap string error
  | OtherError string

section \<open>Library functions of Go used by the code\<close>

subsection \<open>strings.TrimSpace\<close>

text \<open>
  \<open>strings.TrimSpace\<close> removes leading and trailing white space as Unicode defines it
  (\<open>unicode.IsSpace\<close>): U+0009..U+000D, U+0020, U+0085, U+00A0, U+1680, U+2000..U+200A,
  U+2028, U+2029, U+202F, U+205F and U+3000.  On the bytes of a Go string a rune is white
  space exactly when the bytes at that place are the UTF-8 encoding of one of these code
  points (an ill-formed sequence decodes to U+FFFD, which is not white space), so the
  table lists the encodings.
\<close>

definition space_encodings :: "string list" where
  "space_encodings =
     [[CHR 0x09], [CHR 0x0A], [CHR 0x0B], [CHR 0x0C], [CHR 0x0D], [CHR 0x20],
      [CHR 0xC2, CHR 0x85], [CHR 0xC2, CHR 0xA0],
      [CHR 0xE1, CHR 0x9A, CHR 0x80],
      [CHR 0xE2, CHR 0x80, CHR 0x80], [CHR 0xE2, CHR 0x80, CHR 0x81],
      [CHR 0xE2, CHR 0x80, CHR 0x82], [CHR 0xE2, CHR 0x80, CHR 0x83],
      [CHR 0xE2, CHR 0x80, CHR 0x84], [CHR 0xE2, CHR 0x80, CHR 0x85],
      [CHR 0xE2, CHR 0x80, CHR 0x86], [CHR 0xE2, CHR 0x80, CHR 0x87],
      [CHR 0xE2, CHR 0x80, CHR 0x88], [CHR 0xE2, CHR 0x80, CHR 0x89],
      [CHR 0xE2, CHR 0x80, CHR 0x8A],
      [CHR 0xE2, CHR 0x80, CHR 0xA8], [CHR 0xE2, CHR 0x80, CHR 0xA9],
      [CHR 0xE2, CHR 0x80, CHR 0xAF],
      [CHR 0xE2, CHR 0x81, CHR 0x9F],
      [CHR 0xE3, CHR 0x80, CHR 0x80]]"

text \<open>The number of bytes of the white-space rune a string starts (ends) with; 0 if none.\<close>

definition leading_space :: "string \<Rightarrow> nat" where
  "leading_space s =
     (case find (\<lambda>e. prefix e s) space_encodings of None \<Rightarrow> 0 | Some e \<Rightarrow> length e)"

definition trailing_space :: "string \<Rightarrow> nat" where
  "trailing_space s =
     (case find (\<lambda>e. suffix e s) space_encodings of None \<Rightarrow> 0 | Some e \<Rightarrow> length e)"

function TrimLeft :: "string \<Rightarrow> string" where
  "TrimLeft s =
     (if leading_space s = 0 \<or> length s < leading_space s then s
      else TrimLeft (drop (leading_space s) s))"
  by pat_completeness auto
termination
  by (relation "measure length") auto

function TrimRight :: "string \<Rightarrow> string" where
  "TrimRight s =
     (if trailing_space s = 0 \<or> length s < trailing_space s then s
      else TrimRight (take (length s - trailing_space s) s))"
  by pat_completeness auto
termination
  by (relation "measure length") auto

text \<open>The two equations unfold themselves, so the simplifier gets them only on request.\<close>

declare TrimLeft.simps [simp del]

declare TrimRight.simps [simp del]

definition TrimSpace :: "string \<Rightarrow> string" where
  "TrimSpace s = TrimRight (TrimLeft s)"

subsection \<open>path.Join\<close>

text \<open>
  \<open>path.Join\<close> drops the leading empty elements, joins the rest with a slash and cleans
  the result; it returns the empty string when every element is empty.  \<open>path.Clean\<close>
  works element by element: an empty element and \<open>.\<close> vanish, \<open>..\<close> removes the element
  before it when there is one that is not itself \<open>..\<close>, is dropped at the root, and is
  kept otherwise; an empty result is \<open>.\<close>.  \<open>out\<close> holds the elements kept so far, the
  last one first.
\<close>

fun split_slash :: "string \<Rightarrow> string list" where
  "split_slash [] = [[]]"
| "split_slash (c # cs) =
     (if c = CHR ''/'' then [] # split_slash cs
      else (case split_slash cs of [] \<Rightarrow> [[c]] | x # xs \<Rightarrow> (c # x) # xs))"

fun join_slash :: "string list \<Rightarrow> string" where
  "join_slash [] = []"
| "join_slash [x] = x"
| "join_slash (x # y # ys) = x @ ''/'' @ join_slash (y # ys)"

definition clean_step :: "bool \<Rightarrow> string list \<Rightarrow> string \<Rightarrow> string list" where
  "clean_step rooted out elem =
     (if elem = [] \<or> elem = ''.'' then out
      else if elem = ''..'' then
        (if out \<noteq> [] \<and> hd out \<noteq> ''..'' then tl out
         else if \<not> rooted then ''..'' # out
         else out)
      else elem # out)"

definition path_Clean :: "string \<Rightarrow> string" where
  "path_Clean p =
     (if p = [] then ''.''
      else
        let rooted = (hd p = CHR ''/'');
            out = join_slash (rev (foldl (clean_step rooted) [] (split_slash p)))
        in if rooted then ''/'' @ out
           else if out = [] then ''.''
           else out)"

definition path_Join :: "string list \<Rightarrow> string" where
  "path_Join elem =
     (case dropWhile (\<lambda>e. e = []) elem of
        [] \<Rightarrow> []
      | e # es \<Rightarrow> path_Clean (join_slash (e # es)))"

subsection \<open>The regular expression of GetGroupsPage\<close>

text \<open>
  \<open>regexp.MustCompile(`<([^>]+)>; rel="next"`).FindStringSubmatch\<close> returns the leftmost
  match.  A match starts at a \<open><\<close>; the group then takes every byte up to the next \<open>>\<close>
  (at least one, and no shorter choice can succeed, since the byte after the group must
  be \<open>>\<close>); the rest of the pattern is literal.  \<open>next_link\<close> is the first submatch of
  the leftmost match, \<open>None\<close> when nothing matches.
\<close>

definition rel_next :: string where
  "rel_next = ''>; rel='' @ [CHR 0x22] @ ''next'' @ [CHR 0x22]"

definition match_here :: "string \<Rightarrow> string option" where
  "match_here s =
     (case s of
        [] \<Rightarrow> None
      | c # rest \<Rightarrow>
          if c = CHR ''<'' \<and> takeWhile (\<lambda>b. b \<noteq> CHR ''>'') rest \<noteq> [] \<and>
             prefix rel_next (dropWhile (\<lambda>b. b \<noteq> CHR ''>'') rest)
          then Some (takeWhile (\<lambda>b. b \<noteq> CHR ''>'') rest)
          else None)"

fun next_link :: "string \<Rightarrow> string option" where
  "next_link [] = None"
| "next_link (c # cs) =
     (case match_here (c # cs) of Some u \<Rightarrow> Some u | None \<Rightarrow> next_link cs)"

section \<open>Data model\<close>

text \<open>
  Go strings are byte sequences, so a \<open>string\<close> here is the list of the bytes of the Go
  string and \<open>length\<close> is Go's \<open>len\<close>.  Go's \<open>int64\<close> identifiers are modelled as
  \<open>int\<close>: the code only compares them, it never does arithmetic on them.  A field whose
  name is used by two structs carries the struct as a prefix.
\<close>

subsection \<open>Package models (declared outside the three files)\<close>

datatype json =
    JNull
  | JBool bool
  | JNumber int
  | JString string
  | JArray "json list"
  | JObject "(string \<times> json) list"

text \<open>
  Modelled from the spec: the struct \<open>models.Dashboard\<close> is declared in package models.
  The spec gives it an identity (Id, Uid, OrgId), Title, FolderId, IsFolder, Version,
  PluginId, Slug and an arbitrary JSON payload Data, addressed by key; the payload is the
  list of the keys of a JSON object with their values.
\<close>

record Dashboard =
  dash_Id :: int
  Uid :: string
  dash_OrgId :: int
  Title :: string
  FolderId :: int
  IsFolder :: bool
  Version :: int
  PluginId :: string
  Slug :: string
  Data :: "(string \<times> json) list"

text \<open>
  Modelled from the spec: \<open>Data.Set\<close> (package simplejson) writes a value into the JSON
  payload under a key, replacing the value the key had.
\<close>

definition json_Set :: "(string \<times> json) list \<Rightarrow> string \<Rightarrow> json \<Rightarrow> (string \<times> json) list" where
  "json_Set d key val = AList.update key val d"

text \<open>
  Modelled from the spec: \<open>Dashboard.SetUid\<close> (package models) stores the identifier it is
  given; the spec's step is "trim Title and Uid".
\<close>

definition SetUid :: "Dashboard \<Rightarrow> string \<Rightarrow> Dashboard" where
  "SetUid dash uid = dash\<lparr>Uid := uid\<rparr>"

text \<open>
  Modelled from the spec: \<open>Dashboard.GetDashboardIdForSavePermissionCheck\<close> (package
  models) is the dashboard's own id, or its folder id if the dashboard itself is new.
\<close>

definition GetDashboardIdForSavePermissionCheck :: "Dashboard \<Rightarrow> int" where
  "GetDashboardIdForSavePermissionCheck dash =
     (if dash_Id dash = 0 then FolderId dash else dash_Id dash)"

text \<open>
  \<open>models.RoleType\<close> is a string type; the code names \<open>ROLE_ADMIN\<close>, and \<open>ROLE_NONE\<close> is
  the zero value (the empty string).
\<close>

datatype RoleType = ROLE_NONE | ROLE_VIEWER | ROLE_EDITOR | ROLE_ADMIN

text \<open>
  \<open>models.SignedInUser\<close>, with the fields the three files read or write.  A struct literal
  that leaves a field out gives it Go's zero value: 0, the empty string, \<open>ROLE_NONE\<close>.
\<close>

record SignedInUser =
  UserId :: int
  OrgRole :: RoleType
  user_OrgId :: int
  Token :: string
  AuthModule :: string

text \<open>
  Modelled from the spec: a ProvisioningRecord (\<open>models.DashboardProvisioning\<close>) ties a
  dashboard id to the provisioning source that created it: its name, the external path
  and a checksum.
\<close>

record DashboardProvisioning =
  prov_DashboardId :: int
  prov_Name :: string
  ExternalId :: string
  CheckSum :: string

text \<open>A \<open>time.Time\<close> is its distance from Go's zero instant, which \<open>IsZero\<close> recognises.\<close>

type_synonym Time = int

definition IsZero :: "Time \<Rightarrow> bool" where
  "IsZero t = (t = 0)"

text \<open>
  \<open>models.SaveDashboardCommand\<close>, with the fields buildSaveDashboardCommand fills in and
  the result the bus handler leaves.
\<close>

record SaveDashboardCommand =
  cmd_Dashboard :: "(string \<times> json) list"
  cmd_Message :: string
  cmd_OrgId :: int
  cmd_Overwrite :: bool
  cmd_UserId :: int
  cmd_FolderId :: int
  cmd_IsFolder :: bool
  cmd_PluginId :: string
  cmd_UpdatedAt :: Time
  cmd_Result :: "Dashboard option"

text \<open>The commands and queries the service hands to \<open>bus.Dispatch\<close>, with their inputs.\<close>

datatype command =
    GetProvisionedDashboardDataQuery string
  | GetProvisionedDashboardDataByIdQuery int
  | ValidateDashboardAlertsCommand int Dashboard "SignedInUser option"
  | ValidateDashboardBeforeSaveCommand int Dashboard bool
  | SaveDashboardCmd SaveDashboardCommand
  | SaveProvisionedDashboardCommand SaveDashboardCommand "DashboardProvisioning option"
  | UpdateDashboardAlertsCommand int "Dashboard option" "SignedInUser option"
  | DeleteDashboardCommand int int
  | GetDashboardQuery int
  | UnprovisionDashboardCommand int

subsection \<open>Package social (social.go)\<close>

text \<open>
  \<open>DashboardAction\<close> is a string type with three named values; \<open>OtherAction\<close> stands for
  any other string, which the switch statements of the connector let fall through.
\<close>

datatype DashboardAction =
    UpdateDashboard
  | CreateDashboard
  | DeleteDashboard
  | OtherAction string

record UpdateDashboardOptions =
  Action :: DashboardAction
  opt_Message :: string
  opt_Title :: string
  Name :: string
  opt_Dashboard :: string
  Folder :: string
  opt_OrgId :: int

record GrafanaGitlabRepo =
  repo_OrgId :: int
  RepoId :: int
  Branch :: string
  DashboardsPath :: string
  Url :: string

text \<open>
  \<open>SocialGitlab\<close> embeds a \<open>*SocialBase\<close> (the OAuth2 configuration and a logger); the
  functions modelled below read neither, so the record keeps the connector's own fields.
\<close>

record SocialGitlab =
  allowedDomains :: "string list"
  allowedGroups :: "string list"
  apiUrl :: string
  allowSignup :: bool
  repos :: "GrafanaGitlabRepo list"

text \<open>
  The values of the interface \<open>SocialConnector\<close>: the GitLab connector, which has its own
  UpdateDashboard, and the connectors that only embed \<open>SocialBase\<close> and so inherit
  \<open>SocialBase.UpdateDashboard\<close>.
\<close>

datatype SocialConnector =
    Gitlab SocialGitlab
  | BaseOnly

subsection \<open>The GitLab client library and the HTTP helper\<close>

datatype FileAction = FileCreate | FileDelete | FileMove | FileUpdate

record CommitAction =
  ca_Action :: FileAction
  Content :: string
  FilePath :: string

record CreateCommitOptions =
  co_Branch :: string
  CommitMessage :: string
  Actions :: "CommitAction list"

record Group =
  FullPath :: string

record HttpGetResponse =
  Body :: string
  Headers :: "(string \<times> string list) list"

section \<open>The collaborators\<close>

text \<open>
  Everything the service reaches outside itself is a field of the environment: the
  handlers the bus runs for each command, the guardian, the provider registry, the GitLab
  commit API and the HTTP helper act on an outside state of type \<open>'s\<close> and give back the
  state they leave; the helpers of other packages whose code is not in the three files
  (\<open>util.IsValidShortUID\<close>, \<open>models.RootFolderName\<close>, \<open>strings.EqualFold\<close>,
  \<open>json.MarshalIndent\<close>, \<open>json.Unmarshal\<close>) are parameters.  The theorems hold for every
  environment.
\<close>

record 's env =
  IsValidShortUID :: "string \<Rightarrow> bool"
  RootFolderName :: string
  EqualFold :: "string \<Rightarrow> string \<Rightarrow> bool"
  MarshalIndent :: "(string \<times> json) list \<Rightarrow> error + string"
  Unmarshal :: "string \<Rightarrow> error + Group list"
  SocialMap :: "string \<Rightarrow> SocialConnector option"
  on_GetProvisionedDashboardData ::
    "string \<Rightarrow> 's \<Rightarrow> (error + DashboardProvisioning list) \<times> 's"
  on_GetProvisionedDashboardDataById ::
    "int \<Rightarrow> 's \<Rightarrow> (error + DashboardProvisioning option) \<times> 's"
  on_ValidateDashboardAlerts ::
    "int \<Rightarrow> Dashboard \<Rightarrow> SignedInUser option \<Rightarrow> 's \<Rightarrow> error option \<times> 's"
  on_ValidateDashboardBeforeSave ::
    "int \<Rightarrow> Dashboard \<Rightarrow> bool \<Rightarrow> 's \<Rightarrow> (error + bool) \<times> 's"
  on_SaveDashboard :: "SaveDashboardCommand \<Rightarrow> 's \<Rightarrow> (error + Dashboard option) \<times> 's"
  on_SaveProvisionedDashboard ::
    "SaveDashboardCommand \<Rightarrow> DashboardProvisioning option \<Rightarrow> 's
       \<Rightarrow> (error + Dashboard option) \<times> 's"
  on_UpdateDashboardAlerts ::
    "int \<Rightarrow> Dashboard option \<Rightarrow> SignedInUser option \<Rightarrow> 's \<Rightarrow> error option \<times> 's"
  on_DeleteDashboard :: "int \<Rightarrow> int \<Rightarrow> 's \<Rightarrow> error option \<times> 's"
  on_GetDashboard :: "int \<Rightarrow> 's \<Rightarrow> (error + Dashboard option) \<times> 's"
  on_UnprovisionDashboard :: "int \<Rightarrow> 's \<Rightarrow> error option \<times> 's"
  CanSave :: "int \<Rightarrow> int \<Rightarrow> SignedInUser option \<Rightarrow> 's \<Rightarrow> (error + bool) \<times> 's"
  CreateCommit ::
    "string \<Rightarrow> string \<Rightarrow> int \<Rightarrow> CreateCommitOptions \<Rightarrow> 's \<Rightarrow> error option \<times> 's"
  HttpGet :: "string \<Rightarrow> 's \<Rightarrow> (error + HttpGetResponse) \<times> 's"

text \<open>
  The world is the outside state together with the calls made so far, oldest first.
\<close>

datatype event =
    BusDispatch command
  | GuardianCanSave int int "SignedInUser option"
  | ConnectorUpdateDashboard UpdateDashboardOptions string
  | GitlabCreateCommit string string int CreateCommitOptions
  | HttpGetCall string

record 's world =
  outside :: 's
  trace :: "event list"

text \<open>One call to a collaborator: the call is recorded, then the collaborator runs.\<close>

definition call :: "event \<Rightarrow> ('s \<Rightarrow> 'r \<times> 's) \<Rightarrow> 's world \<Rightarrow> 'r \<times> 's world" where
  "call ev h w =
     (case h (outside w) of
        (r, s') \<Rightarrow> (r, \<lparr>outside = s', trace = trace w @ [ev]\<rparr>))"

section \<open>The GitLab connector (pkg/login/social/gitlab_oauth.go)\<close>

subsection \<open>getRepo, the commit message, UpdateDashboard\<close>

fun getRepo_loop :: "GrafanaGitlabRepo list \<Rightarrow> int \<Rightarrow> GrafanaGitlabRepo option" where
  "getRepo_loop [] orgId = None"
| "getRepo_loop (repo # rest) orgId =
     (if repo_OrgId repo = orgId then Some repo else getRepo_loop rest orgId)"

definition getRepo :: "SocialGitlab \<Rightarrow> int \<Rightarrow> GrafanaGitlabRepo option" where
  "getRepo s orgId = getRepo_loop (repos s) orgId"

fun getGitlabAction :: "DashboardAction \<Rightarrow> FileAction" where
  "getGitlabAction UpdateDashboard = FileUpdate"
| "getGitlabAction CreateDashboard = FileCreate"
| "getGitlabAction DeleteDashboard = FileDelete"
| "getGitlabAction (OtherAction a) = FileUpdate"

definition createCommitMessage :: "UpdateDashboardOptions \<Rightarrow> string" where
  "createCommitMessage options =
     (case Action options of
        CreateDashboard \<Rightarrow> ''Create '' @ opt_Title options @ '' dashboard''
      | DeleteDashboard \<Rightarrow> ''Delete '' @ opt_Title options @ '' dashboard''
      | UpdateDashboard \<Rightarrow>
          ''Update '' @ opt_Title options @ '' dashboard'' @ [CHR 0x0A, CHR 0x0A] @
          opt_Message options
      | OtherAction a \<Rightarrow> [])"

text \<open>
  \<open>repo\<close> is the pointer getRepo returned; \<open>repo.DashboardsPath\<close> is its first
  dereference, and it panics on nil.  Any error of the commit call becomes
  \<open>ErrDashboardGitlabSync\<close>.
\<close>

definition gitlab_UpdateDashboard ::
    "'s env \<Rightarrow> SocialGitlab \<Rightarrow> UpdateDashboardOptions \<Rightarrow> string \<Rightarrow> 's world
       \<Rightarrow> error option outcome \<times> 's world" where
  "gitlab_UpdateDashboard env s options token w =
     (let org_id = opt_OrgId options;
          message = createCommitMessage options;
          fileName = Name options @ ''.json''
      in case getRepo s org_id of
           None \<Rightarrow> (Panic, w)
         | Some repo \<Rightarrow>
             (let filePath = path_Join [DashboardsPath repo, Folder options, fileName];
                  commit = \<lparr>co_Branch = Branch repo, CommitMessage = message,
                            Actions = [\<lparr>ca_Action = getGitlabAction (Action options),
                                        Content = opt_Dashboard options,
                                        FilePath = filePath\<rparr>]\<rparr>
              in (case call (GitlabCreateCommit (Url repo) token (RepoId repo) commit)
                         (CreateCommit env (Url repo) token (RepoId repo) commit) w of
                    (Some err, w') \<Rightarrow> (Return (Some ErrDashboardGitlabSync), w')
                  | (None, w') \<Rightarrow> (Return None, w'))))"

text \<open>\<open>SocialBase.UpdateDashboard\<close> (social.go) does nothing and returns nil.\<close>

definition base_UpdateDashboard ::
    "UpdateDashboardOptions \<Rightarrow> string \<Rightarrow> 's world \<Rightarrow> error option outcome \<times> 's world" where
  "base_UpdateDashboard options token w = (Return None, w)"

text \<open>
  A call of the interface method \<open>connect.UpdateDashboard\<close>: a nil interface value panics,
  any other value runs the method of its dynamic type.
\<close>

definition connector_UpdateDashboard ::
    "'s env \<Rightarrow> SocialConnector option \<Rightarrow> UpdateDashboardOptions \<Rightarrow> string \<Rightarrow> 's world
       \<Rightarrow> error option outcome \<times> 's world" where
  "connector_UpdateDashboard env connect options token w =
     (case connect of
        None \<Rightarrow> (Panic, w)
      | Some c \<Rightarrow>
          (let w' = w\<lparr>trace := trace w @ [ConnectorUpdateDashboard options token]\<rparr>
           in (case c of
                 Gitlab s \<Rightarrow> gitlab_UpdateDashboard env s options token w'
               | BaseOnly \<Rightarrow> base_UpdateDashboard options token w')))"

subsection \<open>IsGroupMember\<close>

text \<open>
  The outer loop runs over the allow-list, the inner one over the user's groups; the first
  equal pair returns true.
\<close>

definition IsGroupMember :: "SocialGitlab \<Rightarrow> string list \<Rightarrow> bool" where
  "IsGroupMember s groups =
     (if length (allowedGroups s) = 0 then True
      else list_ex (\<lambda>allowedGroup. list_ex (\<lambda>group. group = allowedGroup) groups)
             (allowedGroups s))"

subsection \<open>GetGroups and GetGroupsPage\<close>

text \<open>
  GetGroupsPage returns the page (nil on an empty URL, a failed request or a body that
  does not parse) and the URL of the next page (empty when there is none).  \<open>link[0]\<close>
  panics when the header is present with no value.
\<close>

definition GetGroupsPage ::
    "'s env \<Rightarrow> SocialGitlab \<Rightarrow> string \<Rightarrow> 's world
       \<Rightarrow> (string list option \<times> string) outcome \<times> 's world" where
  "GetGroupsPage env s url w =
     (if url = [] then (Return (None, []), w)
      else case call (HttpGetCall url) (HttpGet env url) w of
             (Inl err, w') \<Rightarrow> (Return (None, []), w')
           | (Inr response, w') \<Rightarrow>
               (case Unmarshal env (Body response) of
                  Inl err \<Rightarrow> (Return (None, []), w')
                | Inr groups \<Rightarrow>
                    (let fullPaths = map FullPath groups
                     in (case map_of (Headers response) ''Link'' of
                           None \<Rightarrow> (Return (Some fullPaths, []), w')
                         | Some link \<Rightarrow>
                             (case link of
                                [] \<Rightarrow> (Panic, w')
                              | link0 # _ \<Rightarrow>
                                  (case next_link link0 of
                                     None \<Rightarrow> (Return (Some fullPaths, []), w')
                                   | Some matched \<Rightarrow>
                                       (Return (Some fullPaths, matched), w')))))))"

text \<open>
  The loop of GetGroups: it runs while the page is not nil, and nothing bounds the number
  of pages, so the result is \<open>None\<close> when the loop never ends.
\<close>

partial_function (option) GetGroups_loop ::
    "'s env \<Rightarrow> SocialGitlab \<Rightarrow> string list \<Rightarrow> string \<Rightarrow> 's world
       \<Rightarrow> (string list outcome \<times> 's world) option" where
  "GetGroups_loop env s groups url w =
     (case GetGroupsPage env s url w of
        (Panic, w') \<Rightarrow> Some (Panic, w')
      | (Return (None, next), w') \<Rightarrow> Some (Return groups, w')
      | (Return (Some page, next), w') \<Rightarrow> GetGroups_loop env s (groups @ page) next w')"

definition GetGroups ::
    "'s env \<Rightarrow> SocialGitlab \<Rightarrow> 's world \<Rightarrow> (string list outcome \<times> 's world) option" where
  "GetGroups env s w = GetGroups_loop env s [] (apiUrl s @ ''/groups'') w"

section \<open>The dashboard service (pkg/services/dashboards/dashboard_service.go)\<close>

text \<open>
  The request.  \<open>User\<close> and \<open>Dashboard\<close> are pointers.  The service writes through both
  (it trims the dashboard's title, it replaces the user), and the caller sees what was
  written, so every entry point returns the request as it leaves it, next to its result
  and the world.  A bus handler fills in the result of its command and leaves the
  command's inputs alone.
\<close>

record SaveDashboardDTO =
  dto_OrgId :: int
  UpdatedAt :: Time
  User :: "SignedInUser option"
  Message :: string
  Overwrite :: bool
  Dashboard :: "Dashboard option"

definition GetProvisionedDashboardData ::
    "'s env \<Rightarrow> string \<Rightarrow> 's world \<Rightarrow> (error + DashboardProvisioning list) \<times> 's world" where
  "GetProvisionedDashboardData env name w =
     call (BusDispatch (GetProvisionedDashboardDataQuery name))
       (on_GetProvisionedDashboardData env name) w"

definition GetProvisionedDashboardDataByDashboardId ::
    "'s env \<Rightarrow> int \<Rightarrow> 's world \<Rightarrow> (error + DashboardProvisioning option) \<times> 's world" where
  "GetProvisionedDashboardDataByDashboardId env dashboardId w =
     call (BusDispatch (GetProvisionedDashboardDataByIdQuery dashboardId))
       (on_GetProvisionedDashboardDataById env dashboardId) w"

text \<open>
  buildSaveDashboardCommand.  The first dereference of \<open>dto.Dashboard\<close> panics on nil, and
  so does \<open>dto.User.UserId\<close> when the command is assembled.  The two optional steps
  (alert validation, the guardian of the new folder) are skipped by handing on the world
  unchanged.
\<close>

definition buildSaveDashboardCommand ::
    "'s env \<Rightarrow> SaveDashboardDTO \<Rightarrow> bool \<Rightarrow> bool \<Rightarrow> 's world
       \<Rightarrow> (error + SaveDashboardCommand) outcome \<times> SaveDashboardDTO \<times> 's world" where
  "buildSaveDashboardCommand env dto0 validateAlerts validateProvisionedDashboard w0 =
     (case Dashboard dto0 of
        None \<Rightarrow> (Panic, dto0, w0)
      | Some dash0 \<Rightarrow>
         (let dash1 = dash0\<lparr>Title := TrimSpace (Title dash0)\<rparr>;
              dash2 = dash1\<lparr>Data := json_Set (Data dash1) ''title'' (JString (Title dash1))\<rparr>;
              dash = SetUid dash2 (TrimSpace (Uid dash2));
              dto = dto0\<lparr>Dashboard := Some dash\<rparr>
          in
          if Title dash = [] then (Return (Inl ErrDashboardTitleEmpty), dto, w0)
          else if IsFolder dash \<and> FolderId dash > 0 then
            (Return (Inl ErrDashboardFolderCannotHaveParent), dto, w0)
          else if IsFolder dash \<and> EqualFold env (Title dash) (RootFolderName env) then
            (Return (Inl ErrDashboardFolderNameExists), dto, w0)
          else if \<not> IsValidShortUID env (Uid dash) then
            (Return (Inl ErrDashboardInvalidUid), dto, w0)
          else if length (Uid dash) > 40 then
            (Return (Inl ErrDashboardUidToLong), dto, w0)
          else
           (case (if validateAlerts
                  then call (BusDispatch
                               (ValidateDashboardAlertsCommand (dto_OrgId dto) dash (User dto)))
                         (on_ValidateDashboardAlerts env (dto_OrgId dto) dash (User dto)) w0
                  else (None, w0)) of
              (Some err, w1) \<Rightarrow> (Return (Inl err), dto, w1)
            | (None, w1) \<Rightarrow>
           (case call (BusDispatch
                         (ValidateDashboardBeforeSaveCommand (dto_OrgId dto) dash (Overwrite dto)))
                   (on_ValidateDashboardBeforeSave env (dto_OrgId dto) dash (Overwrite dto)) w1 of
              (Inl err, w2) \<Rightarrow> (Return (Inl err), dto, w2)
            | (Inr isParentFolderChanged, w2) \<Rightarrow>
           (case (if isParentFolderChanged
                  then call (GuardianCanSave (FolderId dash) (dto_OrgId dto) (User dto))
                         (CanSave env (FolderId dash) (dto_OrgId dto) (User dto)) w2
                  else (Inr True, w2)) of
              (Inl err, w3) \<Rightarrow> (Return (Inl err), dto, w3)
            | (Inr canSaveFolder, w3) \<Rightarrow>
           if \<not> canSaveFolder then (Return (Inl ErrDashboardUpdateAccessDenied), dto, w3)
           else
           (case (if validateProvisionedDashboard
                  then GetProvisionedDashboardDataByDashboardId env (dash_Id dash) w3
                  else (Inr None, w3)) of
              (Inl err, w4) \<Rightarrow> (Return (Inl err), dto, w4)
            | (Inr (Some provisionedData), w4) \<Rightarrow>
                (Return (Inl ErrDashboardCannotSaveProvisionedDashboard), dto, w4)
            | (Inr None, w4) \<Rightarrow>
           (case call (GuardianCanSave (GetDashboardIdForSavePermissionCheck dash)
                         (dto_OrgId dto) (User dto))
                   (CanSave env (GetDashboardIdForSavePermissionCheck dash)
                      (dto_OrgId dto) (User dto)) w4 of
              (Inl err, w5) \<Rightarrow> (Return (Inl err), dto, w5)
            | (Inr canSave, w5) \<Rightarrow>
           if \<not> canSave then (Return (Inl ErrDashboardUpdateAccessDenied), dto, w5)
           else
           (case User dto of
              None \<Rightarrow> (Panic, dto, w5)
            | Some user \<Rightarrow>
                (Return (Inr \<lparr>cmd_Dashboard = Data dash,
                              cmd_Message = Message dto,
                              cmd_OrgId = dto_OrgId dto,
                              cmd_Overwrite = Overwrite dto,
                              cmd_UserId = UserId user,
                              cmd_FolderId = FolderId dash,
                              cmd_IsFolder = IsFolder dash,
                              cmd_PluginId = PluginId dash,
                              cmd_UpdatedAt =
                                (if \<not> IsZero (UpdatedAt dto) then UpdatedAt dto else 0),
                              cmd_Result = None\<rparr>), dto, w5)))))))))"

text \<open>
  The steps of buildSaveDashboardCommand after the checks of the fields, last step first:
  each is the text of the function from that step on.  The proofs go through the function
  one step at a time.
\<close>

definition build_assemble ::
    "SaveDashboardDTO \<Rightarrow> Dashboard \<Rightarrow> 's world
       \<Rightarrow> (error + SaveDashboardCommand) outcome \<times> SaveDashboardDTO \<times> 's world" where
  "build_assemble dto dash w5 =
           (case User dto of
              None \<Rightarrow> (Panic, dto, w5)
            | Some user \<Rightarrow>
                (Return (Inr \<lparr>cmd_Dashboard = Data dash,
                              cmd_Message = Message dto,
                              cmd_OrgId = dto_OrgId dto,
                              cmd_Overwrite = Overwrite dto,
                              cmd_UserId = UserId user,
                              cmd_FolderId = FolderId dash,
                              cmd_IsFolder = IsFolder dash,
                              cmd_PluginId = PluginId dash,
                              cmd_UpdatedAt =
                                (if \<not> IsZero (UpdatedAt dto) then UpdatedAt dto else 0),
                              cmd_Result = None\<rparr>), dto, w5))"

definition build_canSave ::
    "'s env \<Rightarrow> SaveDashboardDTO \<Rightarrow> Dashboard \<Rightarrow> 's world
       \<Rightarrow> (error + SaveDashboardCommand) outcome \<times> SaveDashboardDTO \<times> 's world" where
  "build_canSave env dto dash w4 =
           (case call (GuardianCanSave (GetDashboardIdForSavePermissionCheck dash)
                         (dto_OrgId dto) (User dto))
                   (CanSave env (GetDashboardIdForSavePermissionCheck dash)
                      (dto_OrgId dto) (User dto)) w4 of
              (Inl err, w5) \<Rightarrow> (Return (Inl err), dto, w5)
            | (Inr canSave, w5) \<Rightarrow>
           if \<not> canSave then (Return (Inl ErrDashboardUpdateAccessDenied), dto, w5)
           else build_assemble dto dash w5)"

definition build_provisioned ::
    "'s env \<Rightarrow> SaveDashboardDTO \<Rightarrow> Dashboard \<Rightarrow> bool \<Rightarrow> 's world
       \<Rightarrow> (error + SaveDashboardCommand) outcome \<times> SaveDashboardDTO \<times> 's world" where
  "build_provisioned env dto dash validateProvisionedDashboard w3 =
           (case (if validateProvisionedDashboard
                  then GetProvisionedDashboardDataByDashboardId env (dash_Id dash) w3
                  else (Inr None, w3)) of
              (Inl err, w4) \<Rightarrow> (Return (Inl err), dto, w4)
            | (Inr (Some provisionedData), w4) \<Rightarrow>
                (Return (Inl ErrDashboardCannotSaveProvisionedDashboard), dto, w4)
            | (Inr None, w4) \<Rightarrow> build_canSave env dto dash w4)"

definition build_folder ::
    "'s env \<Rightarrow> SaveDashboardDTO \<Rightarrow> Dashboard \<Rightarrow> bool \<Rightarrow> bool \<Rightarrow> 's world
       \<Rightarrow> (error + SaveDashboardCommand) outcome \<times> SaveDashboardDTO \<times> 's world" where
  "build_folder env dto dash validateProvisionedDashboard isParentFolderChanged w2 =
           (case (if isParentFolderChanged
                  then call (GuardianCanSave (FolderId dash) (dto_OrgId dto) (User dto))
                         (CanSave env (FolderId dash) (dto_OrgId dto) (User dto)) w2
                  else (Inr True, w2)) of
              (Inl err, w3) \<Rightarrow> (Return (Inl err), dto, w3)
            | (Inr canSaveFolder, w3) \<Rightarrow>
           if \<not> canSaveFolder then (Return (Inl ErrDashboardUpdateAccessDenied), dto, w3)
           else build_provisioned env dto dash validateProvisionedDashboard w3)"

definition build_validate ::
    "'s env \<Rightarrow> SaveDashboardDTO \<Rightarrow> Dashboard \<Rightarrow> bool \<Rightarrow> bool \<Rightarrow> 's world
       \<Rightarrow> (error + SaveDashboardCommand) outcome \<times> SaveDashboardDTO \<times> 's world" where
  "build_validate env dto dash validateAlerts validateProvisionedDashboard w0 =
           (case (if validateAlerts
                  then call (BusDispatch
                               (ValidateDashboardAlertsCommand (dto_OrgId dto) dash (User dto)))
                         (on_ValidateDashboardAlerts env (dto_OrgId dto) dash (User dto)) w0
                  else (None, w0)) of
              (Some err, w1) \<Rightarrow> (Return (Inl err), dto, w1)
            | (None, w1) \<Rightarrow>
           (case call (BusDispatch
                         (ValidateDashboardBeforeSaveCommand (dto_OrgId dto) dash (Overwrite dto)))
                   (on_ValidateDashboardBeforeSave env (dto_OrgId dto) dash (Overwrite dto)) w1 of
              (Inl err, w2) \<Rightarrow> (Return (Inl err), dto, w2)
            | (Inr isParentFolderChanged, w2) \<Rightarrow>
                build_folder env dto dash validateProvisionedDashboard isParentFolderChanged w2))"

definition updateAlerting ::
    "'s env \<Rightarrow> SaveDashboardCommand \<Rightarrow> SaveDashboardDTO \<Rightarrow> 's world
       \<Rightarrow> error option \<times> 's world" where
  "updateAlerting env cmd dto w =
     call (BusDispatch (UpdateDashboardAlertsCommand (dto_OrgId dto) (cmd_Result cmd) (User dto)))
       (on_UpdateDashboardAlerts env (dto_OrgId dto) (cmd_Result cmd) (User dto)) w"

text \<open>
  The two save flows of the provisioning service.  Each replaces the acting user, builds
  the command, dispatches it, updates the alerts with the result the handler left in the
  command (\<open>cmd.Result\<close>) and returns that result.
\<close>

definition SaveProvisionedDashboard ::
    "'s env \<Rightarrow> SaveDashboardDTO \<Rightarrow> DashboardProvisioning option \<Rightarrow> 's world
       \<Rightarrow> (error + Dashboard option) outcome \<times> SaveDashboardDTO \<times> 's world" where
  "SaveProvisionedDashboard env dto0 provisioning w0 =
     (let dto1 = dto0\<lparr>User := Some \<lparr>UserId = 0, OrgRole = ROLE_ADMIN,
                                     user_OrgId = dto_OrgId dto0,
                                     Token = [], AuthModule = []\<rparr>\<rparr>
      in case buildSaveDashboardCommand env dto1 True False w0 of
           (Panic, dto, w) \<Rightarrow> (Panic, dto, w)
         | (Return (Inl err), dto, w) \<Rightarrow> (Return (Inl err), dto, w)
         | (Return (Inr cmd), dto, w) \<Rightarrow>
             (case call (BusDispatch (SaveProvisionedDashboardCommand cmd provisioning))
                     (on_SaveProvisionedDashboard env cmd provisioning) w of
                (Inl err, w1) \<Rightarrow> (Return (Inl err), dto, w1)
              | (Inr result, w1) \<Rightarrow>
                  (case updateAlerting env (cmd\<lparr>cmd_Result := result\<rparr>) dto w1 of
                     (Some err, w2) \<Rightarrow> (Return (Inl err), dto, w2)
                   | (None, w2) \<Rightarrow> (Return (Inr result), dto, w2))))"

definition SaveFolderForProvisionedDashboards ::
    "'s env \<Rightarrow> SaveDashboardDTO \<Rightarrow> 's world
       \<Rightarrow> (error + Dashboard option) outcome \<times> SaveDashboardDTO \<times> 's world" where
  "SaveFolderForProvisionedDashboards env dto0 w0 =
     (let dto1 = dto0\<lparr>User := Some \<lparr>UserId = 0, OrgRole = ROLE_ADMIN,
                                     user_OrgId = 0,
                                     Token = [], AuthModule = []\<rparr>\<rparr>
      in case buildSaveDashboardCommand env dto1 False False w0 of
           (Panic, dto, w) \<Rightarrow> (Panic, dto, w)
         | (Return (Inl err), dto, w) \<Rightarrow> (Return (Inl err), dto, w)
         | (Return (Inr cmd), dto, w) \<Rightarrow>
             (case call (BusDispatch (SaveDashboardCmd cmd)) (on_SaveDashboard env cmd) w of
                (Inl err, w1) \<Rightarrow> (Return (Inl err), dto, w1)
              | (Inr result, w1) \<Rightarrow>
                  (case updateAlerting env (cmd\<lparr>cmd_Result := result\<rparr>) dto w1 of
                     (Some err, w2) \<Rightarrow> (Return (Inl err), dto, w2)
                   | (None, w2) \<Rightarrow> (Return (Inr result), dto, w2))))"

subsection \<open>The mirror\<close>

definition getPreviousDashboard ::
    "'s env \<Rightarrow> Dashboard \<Rightarrow> 's world \<Rightarrow> Dashboard option \<times> 's world" where
  "getPreviousDashboard env newDashboard w =
     (if Version newDashboard = 0 then (None, w)
      else case call (BusDispatch (GetDashboardQuery (dash_Id newDashboard)))
                  (on_GetDashboard env (dash_Id newDashboard)) w of
             (Inl err, w') \<Rightarrow> (None, w')
           | (Inr result, w') \<Rightarrow> (result, w'))"

text \<open>\<open>folderQuery.Result.Title\<close> panics when the handler left no result.\<close>

definition getDashboardFolder ::
    "'s env \<Rightarrow> Dashboard \<Rightarrow> 's world \<Rightarrow> string outcome \<times> 's world" where
  "getDashboardFolder env dashboard w =
     (if FolderId dashboard = 0 then (Return ''General'', w)
      else case call (BusDispatch (GetDashboardQuery (FolderId dashboard)))
                  (on_GetDashboard env (FolderId dashboard)) w of
             (Inl err, w') \<Rightarrow> (Return ''unknown'', w')
           | (Inr None, w') \<Rightarrow> (Panic, w')
           | (Inr (Some folder), w') \<Rightarrow> (Return (Title folder), w'))"

text \<open>
  updateDashboard reads the registry and drops the flag that says whether the key was
  there, so \<open>connect\<close> is nil for an auth module that is not registered; the nil is used
  only at the end, in \<open>connect.UpdateDashboard\<close>.
\<close>

definition updateDashboard ::
    "'s env \<Rightarrow> Dashboard \<Rightarrow> DashboardAction \<Rightarrow> SignedInUser \<Rightarrow> string \<Rightarrow> 's world
       \<Rightarrow> error option outcome \<times> 's world" where
  "updateDashboard env dashboard action user message w =
     (let authModule = AuthModule user;
          connect = SocialMap env authModule
      in case MarshalIndent env (Data dashboard) of
           Inl err \<Rightarrow> (Return (Some err), w)
         | Inr dashboardModel \<Rightarrow>
             (case getDashboardFolder env dashboard w of
                (Panic, w') \<Rightarrow> (Panic, w')
              | (Return folderName, w') \<Rightarrow>
                  (let updateOptions =
                         \<lparr>Action = action, opt_Message = message,
                          opt_Title = Title dashboard, Name = Slug dashboard,
                          opt_Dashboard = dashboardModel, Folder = folderName,
                          opt_OrgId = dash_OrgId dashboard\<rparr>
                   in connector_UpdateDashboard env connect updateOptions (Token user) w')))"

text \<open>
  The mirror step of SaveDashboard, the body of \<open>if dto.User.Token != ""\<close>: its value is
  the variable \<open>err\<close> at the end of the block.  In the branch of a changed folder the
  second assignment to \<open>err\<close> replaces what the first call returned.
\<close>

definition syncSavedDashboard ::
    "'s env \<Rightarrow> SaveDashboardDTO \<Rightarrow> SignedInUser \<Rightarrow> 's world
       \<Rightarrow> error option outcome \<times> 's world" where
  "syncSavedDashboard env dto user w =
     (case Dashboard dto of
        None \<Rightarrow> (Panic, w)
      | Some newDashboard \<Rightarrow>
          (case getPreviousDashboard env newDashboard w of
             (Some previousDashboard, w1) \<Rightarrow>
               if FolderId previousDashboard \<noteq> FolderId newDashboard then
                 (case updateDashboard env previousDashboard DeleteDashboard user [] w1 of
                    (Panic, w2) \<Rightarrow> (Panic, w2)
                  | (Return err, w2) \<Rightarrow>
                      updateDashboard env newDashboard CreateDashboard user [] w2)
               else updateDashboard env newDashboard UpdateDashboard user (Message dto) w1
           | (None, w1) \<Rightarrow> updateDashboard env newDashboard CreateDashboard user [] w1))"

definition SaveDashboard ::
    "'s env \<Rightarrow> SaveDashboardDTO \<Rightarrow> 's world
       \<Rightarrow> (error + Dashboard option) outcome \<times> SaveDashboardDTO \<times> 's world" where
  "SaveDashboard env dto0 w0 =
     (case buildSaveDashboardCommand env dto0 True True w0 of
        (Panic, dto, w) \<Rightarrow> (Panic, dto, w)
      | (Return (Inl err), dto, w) \<Rightarrow> (Return (Inl err), dto, w)
      | (Return (Inr cmd), dto, w) \<Rightarrow>
          (case User dto of
             None \<Rightarrow> (Panic, dto, w)
           | Some user \<Rightarrow>
               (case (if Token user \<noteq> [] then syncSavedDashboard env dto user w
                      else (Return None, w)) of
                  (Panic, w1) \<Rightarrow> (Panic, dto, w1)
                | (Return (Some err), w1) \<Rightarrow> (Return (Inl err), dto, w1)
                | (Return None, w1) \<Rightarrow>
                    (case call (BusDispatch (SaveDashboardCmd cmd)) (on_SaveDashboard env cmd) w1 of
                       (Inl err, w2) \<Rightarrow> (Return (Inl err), dto, w2)
                     | (Inr result, w2) \<Rightarrow>
                         (case updateAlerting env (cmd\<lparr>cmd_Result := result\<rparr>) dto w2 of
                            (Some err, w3) \<Rightarrow> (Return (Inl err), dto, w3)
                          | (None, w3) \<Rightarrow> (Return (Inr result), dto, w3))))))"

definition ImportDashboard ::
    "'s env \<Rightarrow> SaveDashboardDTO \<Rightarrow> 's world
       \<Rightarrow> (error + Dashboard option) outcome \<times> SaveDashboardDTO \<times> 's world" where
  "ImportDashboard env dto0 w0 =
     (case buildSaveDashboardCommand env dto0 False True w0 of
        (Panic, dto, w) \<Rightarrow> (Panic, dto, w)
      | (Return (Inl err), dto, w) \<Rightarrow> (Return (Inl err), dto, w)
      | (Return (Inr cmd), dto, w) \<Rightarrow>
          (case User dto of
             None \<Rightarrow> (Panic, dto, w)
           | Some user \<Rightarrow>
               if Token user \<noteq> [] then
                 (case Dashboard dto of
                    None \<Rightarrow> (Panic, dto, w)
                  | Some newDashboard \<Rightarrow>
                      (case updateDashboard env newDashboard CreateDashboard user
                              (Message dto) w of
                         (Panic, w1) \<Rightarrow> (Panic, dto, w1)
                       | (Return (Some err), w1) \<Rightarrow> (Return (Inl err), dto, w1)
                       | (Return None, w1) \<Rightarrow>
                           (case call (BusDispatch (SaveDashboardCmd cmd))
                                   (on_SaveDashboard env cmd) w1 of
                              (Inl err, w2) \<Rightarrow> (Return (Inl err), dto, w2)
                            | (Inr result, w2) \<Rightarrow> (Return (Inr result), dto, w2))))
               else (Return (Inl ErrDashboardGitlabSync), dto, w)))"

subsection \<open>Deleting\<close>

definition deleteDashboard ::
    "'s env \<Rightarrow> int \<Rightarrow> int \<Rightarrow> bool \<Rightarrow> 's world \<Rightarrow> error option \<times> 's world" where
  "deleteDashboard env dashboardId orgId validateProvisionedDashboard w =
     (case (if validateProvisionedDashboard
            then GetProvisionedDashboardDataByDashboardId env dashboardId w
            else (Inr None, w)) of
        (Inl err, w1) \<Rightarrow> (Some (Wrap ''failed to check if dashboard is provisioned'' err), w1)
      | (Inr (Some provisionedData), w1) \<Rightarrow>
          (Some ErrDashboardCannotDeleteProvisionedDashboard, w1)
      | (Inr None, w1) \<Rightarrow>
          call (BusDispatch (DeleteDashboardCommand orgId dashboardId))
            (on_DeleteDashboard env orgId dashboardId) w1)"

definition DeleteDashboard_svc :: "'s env \<Rightarrow> int \<Rightarrow> int \<Rightarrow> 's world \<Rightarrow> error option \<times> 's world" where
  "DeleteDashboard_svc env dashboardId orgId w = deleteDashboard env dashboardId orgId True w"

definition DeleteProvisionedDashboard ::
    "'s env \<Rightarrow> int \<Rightarrow> int \<Rightarrow> 's world \<Rightarrow> error option \<times> 's world" where
  "DeleteProvisionedDashboard env dashboardId orgId w =
     deleteDashboard env dashboardId orgId False w"

definition UnprovisionDashboard :: "'s env \<Rightarrow> int \<Rightarrow> 's world \<Rightarrow> error option \<times> 's world" where
  "UnprovisionDashboard env dashboardId w =
     call (BusDispatch (UnprovisionDashboardCommand dashboardId))
       (on_UnprovisionDashboard env dashboardId) w"

section \<open>A concrete environment\<close>

text \<open>
  One organisation (id 1) mirrors its dashboards to a GitLab repository.  The outside
  state is the list of the files in that repository: a commit that creates a file fails
  when the file exists, one that deletes or updates a file fails when it does not.  The
  store holds dashboard 7 ("Prod", in folder 3) and the folders 3 ("Ops") and 5 ("Dev");
  dashboard 9 is provisioned.  The group API has three pages.
\<close>

definition demo_repo :: GrafanaGitlabRepo where
  "demo_repo = \<lparr>repo_OrgId = 1, RepoId = 42, Branch = ''master'',
                 DashboardsPath = ''dashboards'', Url = ''https://gitlab.example/api/v4''\<rparr>"

definition demo_gitlab :: SocialGitlab where
  "demo_gitlab = \<lparr>allowedDomains = [], allowedGroups = [''ops'', ''dev''],
                   apiUrl = ''https://gitlab.example/api/v4'', allowSignup = True,
                   repos = [demo_repo]\<rparr>"

definition demo_dashboard :: "int \<Rightarrow> string \<Rightarrow> int \<Rightarrow> bool \<Rightarrow> string \<Rightarrow> Dashboard" where
  "demo_dashboard i title folder is_folder slug =
     \<lparr>dash_Id = i, Uid = slug, dash_OrgId = 1, Title = title, FolderId = folder,
      IsFolder = is_folder, Version = 1, PluginId = [], Slug = slug,
      Data = [(''title'', JString title)]\<rparr>"

definition demo_stored :: "(int \<times> Dashboard) list" where
  "demo_stored =
     [(7, demo_dashboard 7 ''Prod'' 3 False ''prod''),
      (3, demo_dashboard 3 ''Ops'' 0 True ''ops''),
      (5, demo_dashboard 5 ''Dev'' 0 True ''dev'')]"

definition demo_provisioning :: DashboardProvisioning where
  "demo_provisioning =
     \<lparr>prov_DashboardId = 9, prov_Name = ''default'', ExternalId = ''/etc/dashboards/nine.json'',
      CheckSum = ''c0ffee''\<rparr>"

definition demo_persisted :: "SaveDashboardCommand \<Rightarrow> Dashboard" where
  "demo_persisted cmd =
     \<lparr>dash_Id = 7, Uid = ''prod'', dash_OrgId = cmd_OrgId cmd,
      Title = (case map_of (cmd_Dashboard cmd) ''title'' of Some (JString t) \<Rightarrow> t | _ \<Rightarrow> []),
      FolderId = cmd_FolderId cmd, IsFolder = cmd_IsFolder cmd, Version = 2,
      PluginId = cmd_PluginId cmd, Slug = ''prod'', Data = cmd_Dashboard cmd\<rparr>"

definition demo_CreateCommit ::
    "string \<Rightarrow> string \<Rightarrow> int \<Rightarrow> CreateCommitOptions \<Rightarrow> string list
       \<Rightarrow> error option \<times> string list" where
  "demo_CreateCommit url token repo commit files =
     (case Actions commit of
        [a] \<Rightarrow>
          (case ca_Action a of
             FileCreate \<Rightarrow>
               if FilePath a \<in> set files then (Some (OtherError ''file exists''), files)
               else (None, files @ [FilePath a])
           | FileDelete \<Rightarrow>
               if FilePath a \<in> set files then (None, removeAll (FilePath a) files)
               else (Some (OtherError ''no such file''), files)
           | FileUpdate \<Rightarrow>
               if FilePath a \<in> set files then (None, files)
               else (Some (OtherError ''no such file''), files)
           | FileMove \<Rightarrow> (Some (OtherError ''not supported''), files))
      | _ \<Rightarrow> (Some (OtherError ''one action expected''), files))"

definition demo_link :: "string \<Rightarrow> string \<Rightarrow> string" where
  "demo_link url rel = ''<'' @ url @ ''>; rel='' @ [CHR 0x22] @ rel @ [CHR 0x22]"

definition demo_HttpGet :: "string \<Rightarrow> string list \<Rightarrow> (error + HttpGetResponse) \<times> string list" where
  "demo_HttpGet url files =
     (if url = ''https://gitlab.example/api/v4/groups'' then
        Inr \<lparr>Body = ''page 1'',
             Headers = [(''Link'',
               [demo_link ''https://gitlab.example/api/v4/groups?page=2'' ''next'' @ '', '' @
                demo_link ''https://gitlab.example/api/v4/groups?page=3'' ''last''])]\<rparr>
      else if url = ''https://gitlab.example/api/v4/groups?page=2'' then
        Inr \<lparr>Body = ''page 2'',
             Headers = [(''Link'',
               [demo_link ''https://gitlab.example/api/v4/groups'' ''prev'' @ '', '' @
                demo_link ''https://gitlab.example/api/v4/groups?page=3'' ''next''])]\<rparr>
      else if url = ''https://gitlab.example/api/v4/groups?page=3'' then
        Inr \<lparr>Body = ''page 3'', Headers = []\<rparr>
      else Inl (OtherError ''404''),
      files)"

definition demo_Unmarshal :: "string \<Rightarrow> error + Group list" where
  "demo_Unmarshal body =
     (if body = ''page 1'' then Inr [\<lparr>FullPath = ''ops''\<rparr>, \<lparr>FullPath = ''ops/infra''\<rparr>]
      else if body = ''page 2'' then Inr [\<lparr>FullPath = ''dev''\<rparr>]
      else if body = ''page 3'' then Inr [\<lparr>FullPath = ''ops''\<rparr>, \<lparr>FullPath = ''qa''\<rparr>]
      else Inl (OtherError ''unexpected end of JSON input''))"

definition demo_env :: "string list env" where
  "demo_env =
     \<lparr>IsValidShortUID =
        (\<lambda>uid. list_all
           (\<lambda>c. c \<in> set ''abcdefghijklmnopqrstuvwxyzABCDEFGHIJKLMNOPQRSTUVWXYZ0123456789-_'') uid),
      RootFolderName = ''General'',
      EqualFold = (\<lambda>a b. a = b),
      MarshalIndent = (\<lambda>d. Inr (concat (map (\<lambda>(k, v). k @ '';'') d))),
      Unmarshal = demo_Unmarshal,
      SocialMap = (\<lambda>name. if name = ''gitlab'' then Some (Gitlab demo_gitlab)
                           else if name = ''github'' then Some BaseOnly else None),
      on_GetProvisionedDashboardData = (\<lambda>name files. (Inr [demo_provisioning], files)),
      on_GetProvisionedDashboardDataById =
        (\<lambda>i files. (Inr (if i = 9 then Some demo_provisioning else None), files)),
      on_ValidateDashboardAlerts = (\<lambda>org d u files. (None, files)),
      on_ValidateDashboardBeforeSave =
        (\<lambda>org d ow files.
           (Inr (case map_of demo_stored (dash_Id d) of
                   Some old \<Rightarrow> FolderId old \<noteq> FolderId d | None \<Rightarrow> False), files)),
      on_SaveDashboard = (\<lambda>cmd files. (Inr (Some (demo_persisted cmd)), files)),
      on_SaveProvisionedDashboard = (\<lambda>cmd p files. (Inr (Some (demo_persisted cmd)), files)),
      on_UpdateDashboardAlerts = (\<lambda>org d u files. (None, files)),
      on_DeleteDashboard = (\<lambda>org i files. (None, files)),
      on_GetDashboard =
        (\<lambda>i files. (case map_of demo_stored i of
                       Some d \<Rightarrow> Inr (Some d)
                     | None \<Rightarrow> Inl (OtherError ''Dashboard not found''), files)),
      on_UnprovisionDashboard = (\<lambda>i files. (None, files)),
      CanSave = (\<lambda>i org u files. (Inr True, files)),
      CreateCommit = demo_CreateCommit,
      HttpGet = demo_HttpGet\<rparr>"

definition demo_user :: SignedInUser where
  "demo_user = \<lparr>UserId = 2, OrgRole = ROLE_EDITOR, user_OrgId = 1, Token = ''glpat-1'',
                 AuthModule = ''gitlab''\<rparr>"

text \<open>The request moves dashboard 7 from folder 3 to folder 5; title and uid come padded.\<close>

definition demo_request :: SaveDashboardDTO where
  "demo_request =
     \<lparr>dto_OrgId = 1, UpdatedAt = 0, User = Some demo_user, Message = ''move to Dev'',
      Overwrite = False,
      Dashboard = Some \<lparr>dash_Id = 7, Uid = '' prod '', dash_OrgId = 1, Title = ''  Prod '',
                         FolderId = 5, IsFolder = False, Version = 1, PluginId = [],
                         Slug = ''prod'', Data = [(''title'', JString ''  Prod '')]\<rparr>\<rparr>"

definition demo_world :: "string list world" where
  "demo_world = \<lparr>outside = [], trace = []\<rparr>"



section \<open>Vocabulary of the properties\<close>

text \<open>\<open>adds_only P w w'\<close>: from \<open>w\<close> to \<open>w'\<close> the trace grew, and only by events that satisfy \<open>P\<close>.\<close>

definition adds_only :: "(event \<Rightarrow> bool) \<Rightarrow> 's world \<Rightarrow> 's world \<Rightarrow> bool" where
  "adds_only P w w' = (\<exists>evs. trace w' = trace w @ evs \<and> list_all P evs)"

text \<open>The calls buildSaveDashboardCommand can make for a request of this org and user.\<close>

fun build_event :: "int \<Rightarrow> SignedInUser option \<Rightarrow> event \<Rightarrow> bool" where
  "build_event org user (BusDispatch (ValidateDashboardAlertsCommand org' d user')) =
     (org' = org \<and> user' = user)"
| "build_event org user (BusDispatch (ValidateDashboardBeforeSaveCommand org' d ow)) =
     (org' = org)"
| "build_event org user (BusDispatch (GetProvisionedDashboardDataByIdQuery i)) = True"
| "build_event org user (GuardianCanSave i org' user') = (org' = org \<and> user' = user)"
| "build_event org user ev = False"

text \<open>The events recorded from \<open>w\<close> to \<open>w'\<close>.\<close>

definition events_since :: "'s world \<Rightarrow> 's world \<Rightarrow> event list" where
  "events_since w w' = drop (length (trace w)) (trace w')"

text \<open>A call returned a value and no error.\<close>

definition succeeded :: "('e + 'a) outcome \<Rightarrow> bool" where
  "succeeded r = (case r of Return (Inr x) \<Rightarrow> True | _ \<Rightarrow> False)"

text \<open>The dispatch of a persistence command: a save, plain or provisioned.\<close>

fun is_persist :: "event \<Rightarrow> bool" where
  "is_persist (BusDispatch (SaveDashboardCmd cmd)) = True"
| "is_persist (BusDispatch (SaveProvisionedDashboardCommand cmd p)) = True"
| "is_persist ev = False"

text \<open>A call that belongs to the external mirror.\<close>

fun is_mirror :: "event \<Rightarrow> bool" where
  "is_mirror (ConnectorUpdateDashboard options token) = True"
| "is_mirror (GitlabCreateCommit url token repo commit) = True"
| "is_mirror ev = False"

text \<open>An event that names an acting user names this one.\<close>

fun carries_user :: "SignedInUser option \<Rightarrow> event \<Rightarrow> bool" where
  "carries_user u (BusDispatch (ValidateDashboardAlertsCommand org d u')) = (u' = u)"
| "carries_user u (BusDispatch (UpdateDashboardAlertsCommand org d u')) = (u' = u)"
| "carries_user u (GuardianCanSave i org u') = (u' = u)"
| "carries_user u ev = True"

text \<open>The mirror operations among some events: the calls of a connector, in order.\<close>

fun connector_calls :: "event list \<Rightarrow> (UpdateDashboardOptions \<times> string) list" where
  "connector_calls [] = []"
| "connector_calls (ConnectorUpdateDashboard options token # evs) =
     (options, token) # connector_calls evs"
| "connector_calls (ev # evs) = connector_calls evs"



text \<open>
  The pages of GetGroups in the spec's words.  \<open>next_page response\<close> is the URL of the
  page after a response: the first submatch of the pattern in the first value of the Link
  header, and no URL (the empty string) without the header or without a match.
  \<open>follows env url w pages w'\<close>: starting at \<open>url\<close> in world \<open>w\<close>, following the next-page
  URLs fetches the pages \<open>pages\<close> (each the list of its full paths) and stops in \<open>w'\<close>:
  at an empty URL, or at a request that fails, or at a body that does not parse.
\<close>

definition next_page :: "HttpGetResponse \<Rightarrow> string option" where
  "next_page response =
     (case map_of (Headers response) ''Link'' of
        None \<Rightarrow> Some []
      | Some [] \<Rightarrow> None
      | Some (link0 # _) \<Rightarrow> (case next_link link0 of None \<Rightarrow> Some [] | Some u \<Rightarrow> Some u))"

inductive follows :: "'s env \<Rightarrow> string \<Rightarrow> 's world \<Rightarrow> string list list \<Rightarrow> 's world \<Rightarrow> bool" where
  no_next: "follows env [] w [] w"
| request_failed:
    "url \<noteq> [] \<Longrightarrow> call (HttpGetCall url) (HttpGet env url) w = (Inl err, w') \<Longrightarrow>
     follows env url w [] w'"
| parse_failed:
    "url \<noteq> [] \<Longrightarrow> call (HttpGetCall url) (HttpGet env url) w = (Inr response, w') \<Longrightarrow>
     Unmarshal env (Body response) = Inl err \<Longrightarrow>
     follows env url w [] w'"
| page:
    "url \<noteq> [] \<Longrightarrow> call (HttpGetCall url) (HttpGet env url) w = (Inr response, w') \<Longrightarrow>
     Unmarshal env (Body response) = Inr groups \<Longrightarrow>
     next_page response = Some next \<Longrightarrow>
     follows env next w' pages w'' \<Longrightarrow>
     map FullPath groups = paths \<Longrightarrow>
     follows env url w (paths # pages) w''"

text \<open>
  \<open>calls_between w w' cs\<close>: from \<open>w\<close> to \<open>w'\<close> the trace grew, and the connector calls
  among the new events are \<open>cs\<close>, in this order.
\<close>

definition calls_between ::
    "'s world \<Rightarrow> 's world \<Rightarrow> (UpdateDashboardOptions \<times> string) list \<Rightarrow> bool" where
  "calls_between w w' cs = (\<exists>evs. trace w' = trace w @ evs \<and> connector_calls evs = cs)"

text \<open>
  What a step of buildSaveDashboardCommand leaves: the request as it was, only calls of
  the build in the trace and, on success, a user and the payload of the dashboard.
\<close>

definition step_ok ::
  "SaveDashboardDTO \<Rightarrow> Dashboard \<Rightarrow> 's world \<Rightarrow>
     (error + SaveDashboardCommand) outcome \<times> SaveDashboardDTO \<times> 's world \<Rightarrow> bool" where
  "step_ok dto dash w res =
     (case res of (r, dto', w') \<Rightarrow>
        dto' = dto \<and> adds_only (build_event (dto_OrgId dto) (User dto)) w w' \<and>
        (\<forall>cmd. r = Return (Inr cmd) \<longrightarrow> User dto \<noteq> None \<and> cmd_Dashboard cmd = Data dash))"

section \<open>Properties\<close>

subsection \<open>strings.TrimSpace\<close>

lemma space_encodings_nonempty: "e \<in> set space_encodings \<Longrightarrow> e \<noteq> []"
  by (auto simp: space_encodings_def)

lemma leading_space_table:
  "list_all (\<lambda>e. \<forall>r. leading_space (e @ r) = length e) space_encodings"
  by (simp add: leading_space_def space_encodings_def)

lemma leading_space_append:
  "e \<in> set space_encodings \<Longrightarrow> leading_space (e @ r) = length e"
  using leading_space_table by (simp add: list_all_iff)

lemma leading_space_0_iff:
  "leading_space s = 0 \<longleftrightarrow> (\<forall>e \<in> set space_encodings. \<not> prefix e s)"
proof
  assume h: "leading_space s = 0"
  show "\<forall>e \<in> set space_encodings. \<not> prefix e s"
  proof (cases "find (\<lambda>e. prefix e s) space_encodings")
    case None
    then show ?thesis by (simp add: find_None_iff)
  next
    case (Some e')
    then have "e' \<in> set space_encodings" by (auto simp: find_Some_iff)
    then have "e' \<noteq> []" by (rule space_encodings_nonempty)
    with h Some show ?thesis by (simp add: leading_space_def)
  qed
next
  assume "\<forall>e \<in> set space_encodings. \<not> prefix e s"
  then have "find (\<lambda>e. prefix e s) space_encodings = None"
    by (simp add: find_None_iff)
  then show "leading_space s = 0" by (simp add: leading_space_def)
qed

lemma trailing_space_0_iff:
  "trailing_space s = 0 \<longleftrightarrow> (\<forall>e \<in> set space_encodings. \<not> suffix e s)"
proof
  assume h: "trailing_space s = 0"
  show "\<forall>e \<in> set space_encodings. \<not> suffix e s"
  proof (cases "find (\<lambda>e. suffix e s) space_encodings")
    case None
    then show ?thesis by (simp add: find_None_iff)
  next
    case (Some e')
    then have "e' \<in> set space_encodings" by (auto simp: find_Some_iff)
    then have "e' \<noteq> []" by (rule space_encodings_nonempty)
    with h Some show ?thesis by (simp add: trailing_space_def)
  qed
next
  assume "\<forall>e \<in> set space_encodings. \<not> suffix e s"
  then have "find (\<lambda>e. suffix e s) space_encodings = None"
    by (simp add: find_None_iff)
  then show "trailing_space s = 0" by (simp add: trailing_space_def)
qed

lemma TrimLeft_Nil: "TrimLeft [] = []"
  by (subst TrimLeft.simps) auto

lemma TrimRight_Nil: "TrimRight [] = []"
  by (subst TrimRight.simps) auto

lemma TrimLeft_concat:
  "set ws \<subseteq> set space_encodings \<Longrightarrow> TrimLeft (concat ws) = []"
proof (induction ws)
  case Nil
  show ?case by (simp add: TrimLeft_Nil)
next
  case (Cons e ws)
  then have e: "e \<in> set space_encodings" and IH: "TrimLeft (concat ws) = []" by auto
  have l: "leading_space (e @ concat ws) = length e" by (rule leading_space_append [OF e])
  have "e \<noteq> []" by (rule space_encodings_nonempty [OF e])
  then show ?case
    by (subst TrimLeft.simps) (simp add: l IH)
qed

lemma TrimLeft_leading: "leading_space (TrimLeft s) = 0"
proof (induction s rule: TrimLeft.induct)
  case (1 s)
  show ?case
  proof (cases "leading_space s = 0 \<or> length s < leading_space s")
    case True
    then have eq: "TrimLeft s = s" by (subst TrimLeft.simps) simp
    from True show ?thesis
    proof
      assume "leading_space s = 0" with eq show ?thesis by simp
    next
      assume "length s < leading_space s"
      then show ?thesis unfolding eq
        by (auto simp: leading_space_def split: option.splits simp: find_Some_iff dest: prefix_length_le)
    qed
  next
    case False
    then have "TrimLeft s = TrimLeft (drop (leading_space s) s)"
      by (subst TrimLeft.simps) simp
    with 1 False show ?thesis by simp
  qed
qed

lemma TrimRight_trailing: "trailing_space (TrimRight s) = 0"
proof (induction s rule: TrimRight.induct)
  case (1 s)
  show ?case
  proof (cases "trailing_space s = 0 \<or> length s < trailing_space s")
    case True
    then have eq: "TrimRight s = s" by (subst TrimRight.simps) simp
    from True show ?thesis
    proof
      assume "trailing_space s = 0" with eq show ?thesis by simp
    next
      assume "length s < trailing_space s"
      then show ?thesis unfolding eq
        by (auto simp: trailing_space_def split: option.splits simp: find_Some_iff dest: suffix_length_le)
    qed
  next
    case False
    then have "TrimRight s = TrimRight (take (length s - trailing_space s) s)"
      by (subst TrimRight.simps) simp
    with 1 False show ?thesis by simp
  qed
qed

lemma TrimRight_prefix: "prefix (TrimRight s) s"
proof (induction s rule: TrimRight.induct)
  case (1 s)
  show ?case
  proof (cases "trailing_space s = 0 \<or> length s < trailing_space s")
    case True
    then have "TrimRight s = s" by (subst TrimRight.simps) simp
    then show ?thesis by simp
  next
    case False
    then have eq: "TrimRight s = TrimRight (take (length s - trailing_space s) s)"
      by (subst TrimRight.simps) simp
    from 1 False have "prefix (TrimRight (take (length s - trailing_space s) s))
        (take (length s - trailing_space s) s)" by simp
    then show ?thesis unfolding eq
      using prefix_order.trans take_is_prefix by blast
  qed
qed

lemma TrimSpace_trimmed:
  "leading_space (TrimSpace s) = 0 \<and> trailing_space (TrimSpace s) = 0"
proof -
  have "leading_space (TrimLeft s) = 0" by (rule TrimLeft_leading)
  then have "\<forall>e \<in> set space_encodings. \<not> prefix e (TrimLeft s)"
    by (simp add: leading_space_0_iff)
  moreover have "prefix (TrimRight (TrimLeft s)) (TrimLeft s)" by (rule TrimRight_prefix)
  ultimately have "\<forall>e \<in> set space_encodings. \<not> prefix e (TrimRight (TrimLeft s))"
    using prefix_order.trans by blast
  then show ?thesis
    by (simp add: TrimSpace_def leading_space_0_iff TrimRight_trailing)
qed

lemma TrimSpace_whitespace:
  "set ws \<subseteq> set space_encodings \<Longrightarrow> TrimSpace (concat ws) = []"
  by (simp add: TrimSpace_def TrimLeft_concat TrimRight_Nil)

subsection \<open>The trace and the steps of buildSaveDashboardCommand\<close>

lemma build_steps:
  "buildSaveDashboardCommand env dto0 validateAlerts validateProvisionedDashboard w0 =
     (case Dashboard dto0 of
        None \<Rightarrow> (Panic, dto0, w0)
      | Some dash0 \<Rightarrow>
         (let dash1 = dash0\<lparr>Title := TrimSpace (Title dash0)\<rparr>;
              dash2 = dash1\<lparr>Data := json_Set (Data dash1) ''title'' (JString (Title dash1))\<rparr>;
              dash = SetUid dash2 (TrimSpace (Uid dash2));
              dto = dto0\<lparr>Dashboard := Some dash\<rparr>
          in
          if Title dash = [] then (Return (Inl ErrDashboardTitleEmpty), dto, w0)
          else if IsFolder dash \<and> FolderId dash > 0 then
            (Return (Inl ErrDashboardFolderCannotHaveParent), dto, w0)
          else if IsFolder dash \<and> EqualFold env (Title dash) (RootFolderName env) then
            (Return (Inl ErrDashboardFolderNameExists), dto, w0)
          else if \<not> IsValidShortUID env (Uid dash) then
            (Return (Inl ErrDashboardInvalidUid), dto, w0)
          else if length (Uid dash) > 40 then
            (Return (Inl ErrDashboardUidToLong), dto, w0)
          else build_validate env dto dash validateAlerts validateProvisionedDashboard w0))"
  unfolding buildSaveDashboardCommand_def build_validate_def build_folder_def
    build_provisioned_def build_canSave_def build_assemble_def
  by (rule refl)

lemma adds_only_refl: "adds_only P w w"
  by (simp add: adds_only_def)

lemma adds_only_trans: "adds_only P w w' \<Longrightarrow> adds_only P w' w'' \<Longrightarrow> adds_only P w w''"
  by (auto simp: adds_only_def)

lemma adds_only_mono: "adds_only P w w' \<Longrightarrow> (\<And>ev. P ev \<Longrightarrow> Q ev) \<Longrightarrow> adds_only Q w w'"
  by (auto simp: adds_only_def list_all_iff)

lemma adds_only_call: "call ev h w = (r, w') \<Longrightarrow> P ev \<Longrightarrow> adds_only P w w'"
  by (auto simp: adds_only_def call_def split: prod.splits)

lemma call_result: "call ev h w = (r, w') \<Longrightarrow> h (outside w) = (r, outside w') \<and> trace w' = trace w @ [ev]"
  by (auto simp: call_def split: prod.splits)

lemma step_ok_after:
  "adds_only (build_event (dto_OrgId dto) (User dto)) w w1 \<Longrightarrow> step_ok dto dash w1 res \<Longrightarrow>
   step_ok dto dash w res"
  by (auto simp: step_ok_def intro: adds_only_trans)

lemma step_ok_error: "step_ok dto dash w (Return (Inl err), dto, w)"
  by (simp add: step_ok_def adds_only_refl)

lemma build_assemble_ok: "step_ok dto dash w (build_assemble dto dash w)"
  by (auto simp: step_ok_def build_assemble_def adds_only_refl split: option.splits)

lemma build_canSave_ok: "step_ok dto dash w (build_canSave env dto dash w)"
proof -
  let ?ev = "GuardianCanSave (GetDashboardIdForSavePermissionCheck dash) (dto_OrgId dto) (User dto)"
  obtain r w5 where c: "call ?ev (CanSave env (GetDashboardIdForSavePermissionCheck dash)
        (dto_OrgId dto) (User dto)) w = (r, w5)" by force
  have g: "adds_only (build_event (dto_OrgId dto) (User dto)) w w5"
    by (rule adds_only_call [OF c]) simp
  show ?thesis
    by (rule step_ok_after [OF g])
      (auto simp: build_canSave_def c step_ok_error build_assemble_ok split: sum.splits)
qed

lemma build_provisioned_ok: "step_ok dto dash w (build_provisioned env dto dash vp w)"
proof (cases vp)
  case False
  then show ?thesis by (simp add: build_provisioned_def build_canSave_ok)
next
  case True
  obtain r w4 where c: "call (BusDispatch (GetProvisionedDashboardDataByIdQuery (dash_Id dash)))
       (on_GetProvisionedDashboardDataById env (dash_Id dash)) w = (r, w4)" by force
  have g: "adds_only (build_event (dto_OrgId dto) (User dto)) w w4"
    by (rule adds_only_call [OF c]) simp
  show ?thesis
    by (rule step_ok_after [OF g])
      (auto simp: build_provisioned_def GetProvisionedDashboardDataByDashboardId_def True c
         step_ok_error build_canSave_ok split: sum.splits option.splits)
qed

lemma build_folder_ok: "step_ok dto dash w (build_folder env dto dash vp changed w)"
proof (cases changed)
  case False
  then show ?thesis by (simp add: build_folder_def build_provisioned_ok)
next
  case True
  obtain r w3 where c: "call (GuardianCanSave (FolderId dash) (dto_OrgId dto) (User dto))
       (CanSave env (FolderId dash) (dto_OrgId dto) (User dto)) w = (r, w3)" by force
  have g: "adds_only (build_event (dto_OrgId dto) (User dto)) w w3"
    by (rule adds_only_call [OF c]) simp
  show ?thesis
    by (rule step_ok_after [OF g])
      (auto simp: build_folder_def True c step_ok_error build_provisioned_ok split: sum.splits)
qed

lemma build_validate_ok: "step_ok dto dash w (build_validate env dto dash va vp w)"
proof -
  obtain r1 w1 where c1: "(if va
                  then call (BusDispatch
                               (ValidateDashboardAlertsCommand (dto_OrgId dto) dash (User dto)))
                         (on_ValidateDashboardAlerts env (dto_OrgId dto) dash (User dto)) w
                  else (None, w)) = (r1, w1)" by force
  have g1: "adds_only (build_event (dto_OrgId dto) (User dto)) w w1"
  proof (cases va)
    case True
    with c1 show ?thesis by (auto intro: adds_only_call)
  next
    case False
    with c1 show ?thesis by (auto intro: adds_only_refl)
  qed
  obtain r2 w2 where c2: "call (BusDispatch
                         (ValidateDashboardBeforeSaveCommand (dto_OrgId dto) dash (Overwrite dto)))
                   (on_ValidateDashboardBeforeSave env (dto_OrgId dto) dash (Overwrite dto)) w1 = (r2, w2)"
    by force
  have g2: "adds_only (build_event (dto_OrgId dto) (User dto)) w1 w2"
    by (rule adds_only_call [OF c2]) simp
  have s2: "step_ok dto dash w2 (case r2 of Inl err \<Rightarrow> (Return (Inl err), dto, w2)
       | Inr changed \<Rightarrow> build_folder env dto dash vp changed w2)"
    by (auto simp: step_ok_error build_folder_ok split: sum.splits)
  have s1: "step_ok dto dash w1 (case r1 of Some err \<Rightarrow> (Return (Inl err), dto, w1)
       | None \<Rightarrow> (case r2 of Inl err \<Rightarrow> (Return (Inl err), dto, w2)
       | Inr changed \<Rightarrow> build_folder env dto dash vp changed w2))"
    using step_ok_after [OF g2 s2] by (auto simp: step_ok_error split: option.splits)
  have "build_validate env dto dash va vp w = (case r1 of Some err \<Rightarrow> (Return (Inl err), dto, w1)
       | None \<Rightarrow> (case r2 of Inl err \<Rightarrow> (Return (Inl err), dto, w2)
       | Inr changed \<Rightarrow> build_folder env dto dash vp changed w2))"
    unfolding build_validate_def c1 by (simp add: c2 split: option.splits)
  with step_ok_after [OF g1 s1] show ?thesis by simp
qed

lemma build_cases:
  assumes "buildSaveDashboardCommand env dto va vp w = (r, dto', w')"
  shows "(Dashboard dto = None \<and> r = Panic \<and> dto' = dto \<and> w' = w) \<or>
     (\<exists>dash0 dash. Dashboard dto = Some dash0 \<and>
        dash = dash0\<lparr>Title := TrimSpace (Title dash0),
                 Data := json_Set (Data dash0) ''title'' (JString (TrimSpace (Title dash0))),
                 Uid := TrimSpace (Uid dash0)\<rparr> \<and>
        dto' = dto\<lparr>Dashboard := Some dash\<rparr> \<and>
        adds_only (build_event (dto_OrgId dto) (User dto)) w w' \<and>
        (\<forall>cmd. r = Return (Inr cmd) \<longrightarrow>
           User dto \<noteq> None \<and> cmd_Dashboard cmd = Data dash \<and> Title dash \<noteq> [] \<and>
           IsValidShortUID env (Uid dash) \<and> length (Uid dash) \<le> 40))"
proof (cases "Dashboard dto")
  case None
  with assms show ?thesis by (simp add: build_steps)
next
  case (Some dash0)
  define dash where "dash = dash0\<lparr>Title := TrimSpace (Title dash0),
                 Data := json_Set (Data dash0) ''title'' (JString (TrimSpace (Title dash0))),
                 Uid := TrimSpace (Uid dash0)\<rparr>"
  define dto1 where "dto1 = dto\<lparr>Dashboard := Some dash\<rparr>"
  have ok: "step_ok dto1 dash w (build_validate env dto1 dash va vp w)"
    by (rule build_validate_ok)
  have eq: "buildSaveDashboardCommand env dto va vp w =
          (if Title dash = [] then (Return (Inl ErrDashboardTitleEmpty), dto1, w)
          else if IsFolder dash \<and> FolderId dash > 0 then
            (Return (Inl ErrDashboardFolderCannotHaveParent), dto1, w)
          else if IsFolder dash \<and> EqualFold env (Title dash) (RootFolderName env) then
            (Return (Inl ErrDashboardFolderNameExists), dto1, w)
          else if \<not> IsValidShortUID env (Uid dash) then
            (Return (Inl ErrDashboardInvalidUid), dto1, w)
          else if length (Uid dash) > 40 then
            (Return (Inl ErrDashboardUidToLong), dto1, w)
          else build_validate env dto1 dash va vp w)"
    by (simp add: build_steps Some Let_def SetUid_def dash_def dto1_def)
  have "dto' = dto1 \<and> adds_only (build_event (dto_OrgId dto) (User dto)) w w' \<and>
        (\<forall>cmd. r = Return (Inr cmd) \<longrightarrow>
           User dto \<noteq> None \<and> cmd_Dashboard cmd = Data dash \<and> Title dash \<noteq> [] \<and>
           IsValidShortUID env (Uid dash) \<and> length (Uid dash) \<le> 40)"
    using assms ok unfolding eq step_ok_def
    by (auto simp: adds_only_refl dto1_def split: if_splits)
  then show ?thesis using Some by (auto simp: dash_def dto1_def)
qed

lemma build_request:
  assumes "buildSaveDashboardCommand env dto va vp w = (r, dto', w')"
  shows "User dto' = User dto \<and> dto_OrgId dto' = dto_OrgId dto \<and> Message dto' = Message dto"
  using build_cases [OF assms] by auto

lemma build_adds:
  assumes "buildSaveDashboardCommand env dto va vp w = (r, dto', w')"
  shows "adds_only (build_event (dto_OrgId dto) (User dto)) w w'"
  using build_cases [OF assms] by (auto simp: adds_only_refl)

lemma build_success:
  assumes "buildSaveDashboardCommand env dto va vp w = (Return (Inr cmd), dto', w')"
  shows "\<exists>dash0 dash user. Dashboard dto = Some dash0 \<and> Dashboard dto' = Some dash \<and>
           User dto' = Some user \<and>
           Title dash = TrimSpace (Title dash0) \<and> Title dash \<noteq> [] \<and>
           Uid dash = TrimSpace (Uid dash0) \<and>
           IsValidShortUID env (Uid dash) \<and> length (Uid dash) \<le> 40 \<and>
           map_of (Data dash) ''title'' = Some (JString (Title dash)) \<and>
           cmd_Dashboard cmd = Data dash"
  using build_cases [OF assms] by (auto simp: json_Set_def update_Some_unfold)

lemma build_title_empty:
  assumes "Dashboard dto = Some dash0" "TrimSpace (Title dash0) = []"
  shows "fst (buildSaveDashboardCommand env dto va vp w) = Return (Inl ErrDashboardTitleEmpty)"
  using assms by (simp add: build_steps Let_def SetUid_def)

subsection \<open>The connector calls of the flows\<close>

lemma connector_calls_append:
  "connector_calls (a @ b) = connector_calls a @ connector_calls b"
  by (induction a rule: connector_calls.induct) auto

lemma calls_between_refl: "calls_between w w []"
  by (simp add: calls_between_def)

lemma calls_between_trans:
  "calls_between w w1 a \<Longrightarrow> calls_between w1 w2 b \<Longrightarrow> calls_between w w2 (a @ b)"
  by (auto simp: calls_between_def connector_calls_append)

lemma calls_between_call:
  "call ev h w = (r, w') \<Longrightarrow> calls_between w w' (connector_calls [ev])"
  by (auto simp: calls_between_def call_def split: prod.splits)


lemma adds_only_calls:
  assumes "adds_only P w w'" and "\<And>ev. P ev \<Longrightarrow> connector_calls [ev] = []"
  shows "calls_between w w' []"
proof -
  from assms(1) obtain evs where t: "trace w' = trace w @ evs" and p: "list_all P evs"
    by (auto simp: adds_only_def)
  from p have "connector_calls evs = []"
  proof (induction evs)
    case Nil
    show ?case by simp
  next
    case (Cons ev evs)
    then have "connector_calls [ev] = []" and "connector_calls evs = []"
      using assms(2) by auto
    then show ?case
      using connector_calls_append [of "[ev]" evs] by simp
  qed
  with t show ?thesis by (auto simp: calls_between_def)
qed

lemma build_event_no_call: "build_event org user ev \<Longrightarrow> connector_calls [ev] = []"
  by (induction org user ev rule: build_event.induct) auto

lemma build_calls:
  "buildSaveDashboardCommand env dto va vp w = (r, dto', w') \<Longrightarrow> calls_between w w' []"
  by (rule adds_only_calls [OF build_adds]) (auto dest: build_event_no_call)

lemma getPreviousDashboard_calls:
  "getPreviousDashboard env d w = (prev, w') \<Longrightarrow> calls_between w w' []"
  by (auto simp: getPreviousDashboard_def calls_between_refl split: if_splits prod.splits sum.splits
      dest!: calls_between_call)

lemma getDashboardFolder_calls:
  "getDashboardFolder env d w = (r, w') \<Longrightarrow> calls_between w w' []"
  by (auto simp: getDashboardFolder_def calls_between_refl
      split: if_splits prod.splits sum.splits option.splits dest!: calls_between_call)

lemma gitlab_UpdateDashboard_calls:
  "gitlab_UpdateDashboard env s options token w = (r, w') \<Longrightarrow> calls_between w w' []"
  by (auto simp: gitlab_UpdateDashboard_def Let_def calls_between_refl
      split: prod.splits option.splits dest!: calls_between_call)

lemma connector_UpdateDashboard_calls:
  assumes "connector_UpdateDashboard env (Some c) options token w = (r, w')"
  shows "calls_between w w' [(options, token)]"
proof -
  let ?w1 = "w\<lparr>trace := trace w @ [ConnectorUpdateDashboard options token]\<rparr>"
  have a: "calls_between w ?w1 [(options, token)]"
    by (simp add: calls_between_def)
  have b: "calls_between ?w1 w' []"
    using assms
    by (cases c)
      (auto simp: connector_UpdateDashboard_def Let_def base_UpdateDashboard_def calls_between_refl
        dest: gitlab_UpdateDashboard_calls)
  from calls_between_trans [OF a b] show ?thesis by simp
qed

lemma updateDashboard_grows:
  assumes "updateDashboard env d a user m w = (r, w')"
  shows "\<exists>cs. calls_between w w' cs"
proof (cases "MarshalIndent env (Data d)")
  case (Inl err)
  with assms have "w' = w" by (simp add: updateDashboard_def Let_def)
  then show ?thesis using calls_between_refl by blast
next
  case (Inr j)
  obtain rf w1 where f: "getDashboardFolder env d w = (rf, w1)" by force
  note f1 = getDashboardFolder_calls [OF f]
  show ?thesis
  proof (cases rf)
    case Panic
    with assms Inr f have "w' = w1" by (simp add: updateDashboard_def Let_def)
    with f1 show ?thesis by blast
  next
    case (Return folderName)
    show ?thesis
    proof (cases "SocialMap env (AuthModule user)")
      case None
      with assms Inr f Return have "w' = w1"
        by (simp add: updateDashboard_def Let_def connector_UpdateDashboard_def)
      with f1 show ?thesis by blast
    next
      case (Some c)
      with assms Inr f Return obtain options where
        "connector_UpdateDashboard env (Some c) options (Token user) w1 = (r, w')"
        by (simp add: updateDashboard_def Let_def)
      from calls_between_trans [OF f1 connector_UpdateDashboard_calls [OF this]]
      show ?thesis by blast
    qed
  qed
qed





lemma calls_between_grows: "calls_between w w' cs \<Longrightarrow> \<exists>evs. trace w' = trace w @ evs"
  by (auto simp: calls_between_def)

lemma save_tail_trace:
  assumes "(case call (BusDispatch (SaveDashboardCmd cmd)) (on_SaveDashboard env cmd) w1 of
              (Inl err, w2) \<Rightarrow> (Return (Inl err), dto, w2)
            | (Inr result, w2) \<Rightarrow>
                (case updateAlerting env (cmd\<lparr>cmd_Result := result\<rparr>) dto w2 of
                   (Some err, w3) \<Rightarrow> (Return (Inl err), dto, w3)
                 | (None, w3) \<Rightarrow> (Return (Inr result), dto, w3))) = (r, dto', w')"
  shows "\<exists>evs. trace w' = trace w1 @ BusDispatch (SaveDashboardCmd cmd) # evs"
  using assms
  by (auto simp: call_def updateAlerting_def split: prod.splits sum.splits option.splits)



lemma build_event_admin:
  "build_event org user ev \<Longrightarrow> \<not> is_mirror ev \<and> carries_user user ev"
  by (induction org user ev rule: build_event.induct) auto

lemma updateAlerting_adds:
  "updateAlerting env cmd dto w = (r, w') \<Longrightarrow>
   adds_only (\<lambda>ev. \<not> is_mirror ev \<and> carries_user (User dto) ev) w w'"
  by (auto simp: updateAlerting_def intro: adds_only_call)

lemma provisioned_flow:
  fixes dto1 :: SaveDashboardDTO and h :: "SaveDashboardCommand \<Rightarrow> 's \<Rightarrow> (error + Dashboard option) \<times> 's"
  assumes "(case buildSaveDashboardCommand env dto1 va False w of
           (Panic, dto, w) \<Rightarrow> (Panic, dto, w)
         | (Return (Inl err), dto, w) \<Rightarrow> (Return (Inl err), dto, w)
         | (Return (Inr cmd), dto, w) \<Rightarrow>
             (case call (BusDispatch (c cmd)) (h cmd) w of
                (Inl err, w1) \<Rightarrow> (Return (Inl err), dto, w1)
              | (Inr result, w1) \<Rightarrow>
                  (case updateAlerting env (cmd\<lparr>cmd_Result := result\<rparr>) dto w1 of
                     (Some err, w2) \<Rightarrow> (Return (Inl err), dto, w2)
                   | (None, w2) \<Rightarrow> (Return (Inr result), dto, w2)))) = (r, dto', w')"
    and "\<And>cmd. is_persist (BusDispatch (c cmd))"
  shows "User dto' = User dto1 \<and>
         adds_only (\<lambda>ev. \<not> is_mirror ev \<and> carries_user (User dto1) ev) w w'"
proof -
  let ?P = "\<lambda>ev. \<not> is_mirror ev \<and> carries_user (User dto1) ev"
  obtain rb dto2 w1 where b: "buildSaveDashboardCommand env dto1 va False w = (rb, dto2, w1)"
    using prod_cases3 by blast
  from build_request [OF b] have u: "User dto2 = User dto1" by simp
  have g: "adds_only ?P w w1"
    by (rule adds_only_mono [OF build_adds [OF b]]) (rule build_event_admin)
  show ?thesis
  proof (cases "\<exists>cmd. rb = Return (Inr cmd)")
    case False
    then have "dto' = dto2 \<and> w' = w1"
      using assms(1) b by (cases rb) (auto split: sum.splits)
    with u g show ?thesis by simp
  next
    case True
    then obtain cmd where rb: "rb = Return (Inr cmd)" by blast
    obtain r1 w2 where c1: "call (BusDispatch (c cmd)) (h cmd) w1 = (r1, w2)" by force
    have p: "?P (BusDispatch (c cmd))"
      using assms(2) [of cmd] by (cases "c cmd") auto
    have g1: "adds_only ?P w1 w2" by (rule adds_only_call [where P = "?P", OF c1]) (rule p)
    show ?thesis
    proof (cases r1)
      case (Inl err)
      with assms(1) b rb c1 have "dto' = dto2 \<and> w' = w2" by simp
      with u adds_only_trans [OF g g1] show ?thesis by simp
    next
      case (Inr result)
      obtain r2 w3 where c2: "updateAlerting env (cmd\<lparr>cmd_Result := result\<rparr>) dto2 w2 = (r2, w3)"
        by force
      from updateAlerting_adds [OF c2] u have g2: "adds_only ?P w2 w3" by simp
      from assms(1) b rb c1 Inr c2 have "dto' = dto2 \<and> w' = w3" by (cases r2) auto
      with u adds_only_trans [OF g adds_only_trans [OF g1 g2]] show ?thesis by simp
    qed
  qed
qed

subsection \<open>The claims\<close>

text \<open>
  C1 (what the code does).  In the branch of a changed folder SaveDashboard assigns the
  result of the delete step to \<open>err\<close> and then assigns the result of the create step to
  the same variable.  So when the delete step returns an error and the create step
  returns none, the save goes on: the next call after the mirror step is the dispatch of
  the persistence command, and the error of the delete step is returned to nobody.
\<close>

theorem SaveDashboard_drops_delete_error:
  assumes b: "buildSaveDashboardCommand env dto True True w = (Return (Inr cmd), dto1, w1)"
    and u: "User dto = Some user" and t: "Token user \<noteq> []"
    and d: "Dashboard dto1 = Some d"
    and p: "getPreviousDashboard env d w1 = (Some previous, w2)"
    and f: "FolderId previous \<noteq> FolderId d"
    and del: "updateDashboard env previous DeleteDashboard user [] w2 = (Return (Some e), w3)"
    and cr: "updateDashboard env d CreateDashboard user [] w3 = (Return None, w4)"
  shows "\<exists>evs. events_since w (snd (snd (SaveDashboard env dto w))) =
           events_since w w4 @ BusDispatch (SaveDashboardCmd cmd) # evs"
proof -
  from build_request [OF b] u have u1: "User dto1 = Some user" by simp
  have s: "syncSavedDashboard env dto1 user w1 = (Return None, w4)"
    by (simp add: syncSavedDashboard_def d p f del cr)
  obtain r dto' w' where sd: "SaveDashboard env dto w = (r, dto', w')"
    using prod_cases3 by blast
  then have "\<exists>evs. trace w' = trace w4 @ BusDispatch (SaveDashboardCmd cmd) # evs"
    by (auto simp: SaveDashboard_def b u1 t s intro: save_tail_trace)
  then obtain evs where e1: "trace w' = trace w4 @ BusDispatch (SaveDashboardCmd cmd) # evs"
    by blast
  obtain c1 c2 where g1: "calls_between w2 w3 c1" and g2: "calls_between w3 w4 c2"
    using updateDashboard_grows [OF del] updateDashboard_grows [OF cr] by blast
  from calls_between_trans [OF build_calls [OF b]
      calls_between_trans [OF getPreviousDashboard_calls [OF p] calls_between_trans [OF g1 g2]]]
  obtain pre where e0: "trace w4 = trace w @ pre"
    using calls_between_grows by blast
  from e0 e1 have "events_since w w' = events_since w w4 @ BusDispatch (SaveDashboardCmd cmd) # evs"
    by (simp add: events_since_def)
  with sd show ?thesis by auto
qed

theorem SaveDashboard_drops_delete_error_witness:
  "fst (updateDashboard demo_env (demo_dashboard 7 ''Prod'' 3 False ''prod'') DeleteDashboard
          demo_user [] demo_world) = Return (Some ErrDashboardGitlabSync) \<and>
   succeeded (fst (SaveDashboard demo_env demo_request demo_world)) \<and>
   list_ex is_persist
     (events_since demo_world (snd (snd (SaveDashboard demo_env demo_request demo_world))))"
proof -
  let ?b = "buildSaveDashboardCommand demo_env demo_request True True demo_world"
  let ?cmd = "\<lparr>cmd_Dashboard = [(''title'', JString ''Prod'')], cmd_Message = ''move to Dev'',
               cmd_OrgId = 1, cmd_Overwrite = False, cmd_UserId = 2, cmd_FolderId = 5,
               cmd_IsFolder = False, cmd_PluginId = [], cmd_UpdatedAt = 0,
               cmd_Result = None\<rparr>"
  let ?d = "\<lparr>dash_Id = 7, Uid = ''prod'', dash_OrgId = 1, Title = ''Prod'', FolderId = 5,
        IsFolder = False, Version = 1, PluginId = [], Slug = ''prod'',
        Data = [(''title'', JString ''Prod'')]\<rparr>"
  let ?p = "demo_dashboard 7 ''Prod'' 3 False ''prod''"
  let ?w2 = "snd (getPreviousDashboard demo_env ?d (snd (snd ?b)))"
  let ?w3 = "snd (updateDashboard demo_env ?p DeleteDashboard demo_user [] ?w2)"
  let ?w4 = "snd (updateDashboard demo_env ?d CreateDashboard demo_user [] ?w3)"
  have b: "?b = (Return (Inr ?cmd), fst (snd ?b), snd (snd ?b))" by code_simp
  have u: "User demo_request = Some demo_user" by (simp add: demo_request_def)
  have t: "Token demo_user \<noteq> []" by (simp add: demo_user_def)
  have d: "Dashboard (fst (snd ?b)) = Some ?d" by code_simp
  have p: "getPreviousDashboard demo_env ?d (snd (snd ?b)) = (Some ?p, ?w2)" by code_simp
  have f: "FolderId ?p \<noteq> FolderId ?d" by (simp add: demo_dashboard_def)
  have del: "updateDashboard demo_env ?p DeleteDashboard demo_user [] ?w2 =
               (Return (Some ErrDashboardGitlabSync), ?w3)" by code_simp
  have cr: "updateDashboard demo_env ?d CreateDashboard demo_user [] ?w3 = (Return None, ?w4)"
    by code_simp
  from SaveDashboard_drops_delete_error [OF b u t d p f del cr]
  have "list_ex is_persist
     (events_since demo_world (snd (snd (SaveDashboard demo_env demo_request demo_world))))"
    by auto
  moreover have "fst (updateDashboard demo_env ?p DeleteDashboard demo_user [] demo_world) =
      Return (Some ErrDashboardGitlabSync)" by code_simp
  moreover have "succeeded (fst (SaveDashboard demo_env demo_request demo_world))" by code_simp
  ultimately show ?thesis by simp
qed

lemma getRepo_loop_None:
  "getRepo_loop rs org = None \<longleftrightarrow> (\<forall>repo \<in> set rs. repo_OrgId repo \<noteq> org)"
  by (induction rs) auto

text \<open>
  C2 (what the code does).  For an org id that no RepoMapping of the connector matches,
  getRepo returns nil and UpdateDashboard panics at \<open>repo.DashboardsPath\<close>: it makes no
  commit call and returns no error, so the missing mapping is not reported as the
  sync-failure error.
\<close>

theorem UpdateDashboard_missing_mapping:
  assumes "\<forall>repo \<in> set (repos s). repo_OrgId repo \<noteq> opt_OrgId options"
  shows "gitlab_UpdateDashboard env s options token w = (Panic, w)"
proof -
  from assms have "getRepo s (opt_OrgId options) = None"
    by (simp add: getRepo_def getRepo_loop_None)
  then show ?thesis by (simp add: gitlab_UpdateDashboard_def Let_def)
qed

theorem UpdateDashboard_missing_mapping_witness:
  "gitlab_UpdateDashboard demo_env demo_gitlab
     \<lparr>Action = CreateDashboard, opt_Message = [], opt_Title = ''Prod'', Name = ''prod'',
      opt_Dashboard = ''title;'', Folder = ''General'', opt_OrgId = 2\<rparr>
     ''glpat-1'' demo_world = (Panic, demo_world)"
  using UpdateDashboard_missing_mapping [of demo_gitlab
     "\<lparr>Action = CreateDashboard, opt_Message = [], opt_Title = ''Prod'', Name = ''prod'',
      opt_Dashboard = ''title;'', Folder = ''General'', opt_OrgId = 2\<rparr>"
     demo_env "''glpat-1''" demo_world]
  by (simp add: demo_gitlab_def demo_repo_def)

text \<open>
  C3.  After a successful build the request's dashboard has the trimmed title of the
  dashboard that came in: it is not empty, has no white space at either end, and is the
  value of the key "title" in the payload, which is also the payload of the command; its
  Uid is the trimmed Uid, has the short-id shape and at most 40 bytes.  When the title
  and the folder checks pass, a Uid of the wrong shape is answered with
  \<open>ErrDashboardInvalidUid\<close> whatever its length, and a Uid of the right shape that is
  longer than 40 bytes with \<open>ErrDashboardUidToLong\<close>: the shape is checked first.  A
  title made of white space only (any sequence of Unicode white-space characters) is
  answered with \<open>ErrDashboardTitleEmpty\<close>.
\<close>

theorem buildSaveDashboardCommand_title_uid:
  "(buildSaveDashboardCommand env dto va vp w = (Return (Inr cmd), dto1, w1) \<longrightarrow>
      (\<exists>dash0 dash. Dashboard dto = Some dash0 \<and> Dashboard dto1 = Some dash \<and>
         Title dash = TrimSpace (Title dash0) \<and> Title dash \<noteq> [] \<and>
         leading_space (Title dash) = 0 \<and> trailing_space (Title dash) = 0 \<and>
         map_of (Data dash) ''title'' = Some (JString (Title dash)) \<and>
         cmd_Dashboard cmd = Data dash \<and>
         Uid dash = TrimSpace (Uid dash0) \<and> IsValidShortUID env (Uid dash) \<and>
         length (Uid dash) \<le> 40)) \<and>
   (Dashboard dto = Some d \<and> TrimSpace (Title d) \<noteq> [] \<and>
    (IsFolder d \<longrightarrow> FolderId d \<le> 0 \<and>
       \<not> EqualFold env (TrimSpace (Title d)) (RootFolderName env)) \<and>
    \<not> IsValidShortUID env (TrimSpace (Uid d)) \<longrightarrow>
      fst (buildSaveDashboardCommand env dto va vp w) = Return (Inl ErrDashboardInvalidUid)) \<and>
   (Dashboard dto = Some d \<and> TrimSpace (Title d) \<noteq> [] \<and>
    (IsFolder d \<longrightarrow> FolderId d \<le> 0 \<and>
       \<not> EqualFold env (TrimSpace (Title d)) (RootFolderName env)) \<and>
    IsValidShortUID env (TrimSpace (Uid d)) \<and> 40 < length (TrimSpace (Uid d)) \<longrightarrow>
      fst (buildSaveDashboardCommand env dto va vp w) = Return (Inl ErrDashboardUidToLong)) \<and>
   (Dashboard dto = Some d \<and> Title d = concat ws \<and> set ws \<subseteq> set space_encodings \<longrightarrow>
      fst (buildSaveDashboardCommand env dto va vp w) = Return (Inl ErrDashboardTitleEmpty))"
proof (intro conjI impI)
  assume b: "buildSaveDashboardCommand env dto va vp w = (Return (Inr cmd), dto1, w1)"
  from build_success [OF b] obtain dash0 dash where
    s: "Dashboard dto = Some dash0" "Dashboard dto1 = Some dash"
       "Title dash = TrimSpace (Title dash0)" "Title dash \<noteq> []"
       "Uid dash = TrimSpace (Uid dash0)" "IsValidShortUID env (Uid dash)"
       "length (Uid dash) \<le> 40"
       "map_of (Data dash) ''title'' = Some (JString (Title dash))"
       "cmd_Dashboard cmd = Data dash"
    by blast
  from TrimSpace_trimmed [of "Title dash0"] s(3)
  have "leading_space (Title dash) = 0 \<and> trailing_space (Title dash) = 0" by simp
  with s show "\<exists>dash0 dash. Dashboard dto = Some dash0 \<and> Dashboard dto1 = Some dash \<and>
         Title dash = TrimSpace (Title dash0) \<and> Title dash \<noteq> [] \<and>
         leading_space (Title dash) = 0 \<and> trailing_space (Title dash) = 0 \<and>
         map_of (Data dash) ''title'' = Some (JString (Title dash)) \<and>
         cmd_Dashboard cmd = Data dash \<and>
         Uid dash = TrimSpace (Uid dash0) \<and> IsValidShortUID env (Uid dash) \<and>
         length (Uid dash) \<le> 40"
    by blast
next
  assume "Dashboard dto = Some d \<and> TrimSpace (Title d) \<noteq> [] \<and>
    (IsFolder d \<longrightarrow> FolderId d \<le> 0 \<and>
       \<not> EqualFold env (TrimSpace (Title d)) (RootFolderName env)) \<and>
    \<not> IsValidShortUID env (TrimSpace (Uid d))"
  then show "fst (buildSaveDashboardCommand env dto va vp w) = Return (Inl ErrDashboardInvalidUid)"
    by (auto simp: build_steps Let_def SetUid_def)
next
  assume "Dashboard dto = Some d \<and> TrimSpace (Title d) \<noteq> [] \<and>
    (IsFolder d \<longrightarrow> FolderId d \<le> 0 \<and>
       \<not> EqualFold env (TrimSpace (Title d)) (RootFolderName env)) \<and>
    IsValidShortUID env (TrimSpace (Uid d)) \<and> 40 < length (TrimSpace (Uid d))"
  then show "fst (buildSaveDashboardCommand env dto va vp w) = Return (Inl ErrDashboardUidToLong)"
    by (auto simp: build_steps Let_def SetUid_def)
next
  assume a: "Dashboard dto = Some d \<and> Title d = concat ws \<and> set ws \<subseteq> set space_encodings"
  then have "TrimSpace (Title d) = []" by (simp add: TrimSpace_whitespace)
  with a show "fst (buildSaveDashboardCommand env dto va vp w) = Return (Inl ErrDashboardTitleEmpty)"
    by (simp add: build_title_empty)
qed

theorem buildSaveDashboardCommand_title_uid_witness:
  "(\<exists>dash. Dashboard (fst (snd (buildSaveDashboardCommand demo_env demo_request True True
                                   demo_world))) = Some dash \<and>
      Title dash = ''Prod'' \<and> map_of (Data dash) ''title'' = Some (JString ''Prod'') \<and>
      Uid dash = ''prod'') \<and>
   fst (buildSaveDashboardCommand demo_env
          (demo_request\<lparr>Dashboard := Some (demo_dashboard 0 ''  '' 0 False ''new'')\<rparr>)
          True True demo_world) = Return (Inl ErrDashboardTitleEmpty) \<and>
   fst (buildSaveDashboardCommand demo_env
          (demo_request\<lparr>Dashboard := Some (demo_dashboard 0 ''New'' 0 False
              ''not a short id, and longer than forty bytes'')\<rparr>)
          True True demo_world) = Return (Inl ErrDashboardInvalidUid) \<and>
   fst (buildSaveDashboardCommand demo_env
          (demo_request\<lparr>Dashboard := Some (demo_dashboard 0 ''New'' 0 False
              ''a-short-id-that-is-longer-than-forty-bytes'')\<rparr>)
          True True demo_world) = Return (Inl ErrDashboardUidToLong)"
proof -
  let ?b = "buildSaveDashboardCommand demo_env demo_request True True demo_world"
  let ?cmd = "\<lparr>cmd_Dashboard = [(''title'', JString ''Prod'')], cmd_Message = ''move to Dev'',
               cmd_OrgId = 1, cmd_Overwrite = False, cmd_UserId = 2, cmd_FolderId = 5,
               cmd_IsFolder = False, cmd_PluginId = [], cmd_UpdatedAt = 0,
               cmd_Result = None\<rparr>"
  let ?blank = "demo_dashboard 0 ''  '' 0 False ''new''"
  let ?bad = "demo_dashboard 0 ''New'' 0 False ''not a short id, and longer than forty bytes''"
  let ?long = "demo_dashboard 0 ''New'' 0 False ''a-short-id-that-is-longer-than-forty-bytes''"
  note claim = buildSaveDashboardCommand_title_uid
  have b: "?b = (Return (Inr ?cmd), fst (snd ?b), snd (snd ?b))" by code_simp
  have r: "Dashboard demo_request =
      Some \<lparr>dash_Id = 7, Uid = '' prod '', dash_OrgId = 1, Title = ''  Prod '',
            FolderId = 5, IsFolder = False, Version = 1, PluginId = [],
            Slug = ''prod'', Data = [(''title'', JString ''  Prod '')]\<rparr>"
    by (simp add: demo_request_def)
  have t1: "TrimSpace ''  Prod '' = ''Prod''" by code_simp
  have t2: "TrimSpace '' prod '' = ''prod''" by code_simp
  from claim [THEN conjunct1, rule_format, OF b]
  have 1: "\<exists>dash. Dashboard (fst (snd ?b)) = Some dash \<and>
      Title dash = ''Prod'' \<and> map_of (Data dash) ''title'' = Some (JString ''Prod'') \<and>
      Uid dash = ''prod''"
    by (auto simp: r t1 t2)
  have w: "Dashboard (demo_request\<lparr>Dashboard := Some ?blank\<rparr>) = Some ?blank \<and>
      Title ?blank = concat ['' '', '' ''] \<and> set ['' '', '' ''] \<subseteq> set space_encodings"
    by (simp add: demo_dashboard_def space_encodings_def)
  have 2: "fst (buildSaveDashboardCommand demo_env (demo_request\<lparr>Dashboard := Some ?blank\<rparr>)
          True True demo_world) = Return (Inl ErrDashboardTitleEmpty)"
    by (rule claim [THEN conjunct2, THEN conjunct2, THEN conjunct2, rule_format, OF w])
  have i: "Dashboard (demo_request\<lparr>Dashboard := Some ?bad\<rparr>) = Some ?bad \<and>
      TrimSpace (Title ?bad) \<noteq> [] \<and>
      (IsFolder ?bad \<longrightarrow> FolderId ?bad \<le> 0 \<and>
         \<not> EqualFold demo_env (TrimSpace (Title ?bad)) (RootFolderName demo_env)) \<and>
      \<not> IsValidShortUID demo_env (TrimSpace (Uid ?bad))"
    by code_simp
  have 3: "fst (buildSaveDashboardCommand demo_env (demo_request\<lparr>Dashboard := Some ?bad\<rparr>)
          True True demo_world) = Return (Inl ErrDashboardInvalidUid)"
    by (rule claim [THEN conjunct2, THEN conjunct1, rule_format, OF i])
  have l: "Dashboard (demo_request\<lparr>Dashboard := Some ?long\<rparr>) = Some ?long \<and>
      TrimSpace (Title ?long) \<noteq> [] \<and>
      (IsFolder ?long \<longrightarrow> FolderId ?long \<le> 0 \<and>
         \<not> EqualFold demo_env (TrimSpace (Title ?long)) (RootFolderName demo_env)) \<and>
      IsValidShortUID demo_env (TrimSpace (Uid ?long)) \<and> 40 < length (TrimSpace (Uid ?long))"
    by code_simp
  have 4: "fst (buildSaveDashboardCommand demo_env (demo_request\<lparr>Dashboard := Some ?long\<rparr>)
          True True demo_world) = Return (Inl ErrDashboardUidToLong)"
    by (rule claim [THEN conjunct2, THEN conjunct2, THEN conjunct1, rule_format, OF l])
  from 1 2 3 4 show ?thesis by simp
qed

lemma build_event_not_persist: "build_event org user ev \<Longrightarrow> \<not> is_persist ev"
  by (induction org user ev rule: build_event.induct) auto

text \<open>
  C4.  When the command build of ImportDashboard succeeds and the acting user's token is
  empty, ImportDashboard returns the sync-required error \<open>ErrDashboardGitlabSync\<close>, leaves
  the request and the world as the build left them, and no persistence command was
  dispatched on the way.
\<close>

theorem ImportDashboard_without_token:
  assumes "succeeded (fst (buildSaveDashboardCommand env dto False True w))"
    and "User dto = Some user" and "Token user = []"
  shows "fst (ImportDashboard env dto w) = Return (Inl ErrDashboardGitlabSync) \<and>
         snd (ImportDashboard env dto w) = snd (buildSaveDashboardCommand env dto False True w) \<and>
         adds_only (\<lambda>ev. \<not> is_persist ev) w (snd (snd (ImportDashboard env dto w)))"
proof -
  obtain r dto1 w1 where b: "buildSaveDashboardCommand env dto False True w = (r, dto1, w1)"
    using prod_cases3 by blast
  with assms(1) obtain cmd where r: "r = Return (Inr cmd)"
    by (auto simp: succeeded_def split: outcome.splits sum.splits)
  from build_request [OF b] assms(2) have u: "User dto1 = Some user" by simp
  have i: "ImportDashboard env dto w = (Return (Inl ErrDashboardGitlabSync), dto1, w1)"
    by (simp add: ImportDashboard_def b r u assms(3))
  have "adds_only (\<lambda>ev. \<not> is_persist ev) w w1"
    by (rule adds_only_mono [OF build_adds [OF b]]) (rule build_event_not_persist)
  with i b show ?thesis by simp
qed

theorem ImportDashboard_without_token_witness:
  "fst (ImportDashboard demo_env (demo_request\<lparr>User := Some (demo_user\<lparr>Token := []\<rparr>)\<rparr>)
          demo_world) = Return (Inl ErrDashboardGitlabSync) \<and>
   list_all (\<lambda>ev. \<not> is_persist ev)
     (trace (snd (snd (ImportDashboard demo_env
        (demo_request\<lparr>User := Some (demo_user\<lparr>Token := []\<rparr>)\<rparr>) demo_world))))"
proof -
  have b: "succeeded (fst (buildSaveDashboardCommand demo_env
      (demo_request\<lparr>User := Some (demo_user\<lparr>Token := []\<rparr>)\<rparr>) False True demo_world))"
    by code_simp
  have u: "User (demo_request\<lparr>User := Some (demo_user\<lparr>Token := []\<rparr>)\<rparr>) =
      Some (demo_user\<lparr>Token := []\<rparr>)"
    by simp
  have t: "Token (demo_user\<lparr>Token := []\<rparr>) = []" by simp
  note claim = ImportDashboard_without_token [OF b u t]
  from claim have r: "fst (ImportDashboard demo_env
      (demo_request\<lparr>User := Some (demo_user\<lparr>Token := []\<rparr>)\<rparr>) demo_world) =
      Return (Inl ErrDashboardGitlabSync)"
    by (rule conjunct1)
  from claim have a: "adds_only (\<lambda>ev. \<not> is_persist ev) demo_world
      (snd (snd (ImportDashboard demo_env
         (demo_request\<lparr>User := Some (demo_user\<lparr>Token := []\<rparr>)\<rparr>) demo_world)))"
    by (rule conjunct2 [THEN conjunct2])
  from a have "list_all (\<lambda>ev. \<not> is_persist ev)
     (trace (snd (snd (ImportDashboard demo_env
        (demo_request\<lparr>User := Some (demo_user\<lparr>Token := []\<rparr>)\<rparr>) demo_world))))"
    by (auto simp: adds_only_def demo_world_def)
  with r show ?thesis by simp
qed




text \<open>
  C6. With an empty allow-list IsGroupMember accepts every group list, the empty one
  included; with a non-empty allow-list it accepts exactly when one of the user's groups is
  equal to one of the allowed groups.
\<close>

theorem IsGroupMember_spec:
  "(allowedGroups s = [] \<longrightarrow> IsGroupMember s groups) \<and>
   (allowedGroups s \<noteq> [] \<longrightarrow>
      (IsGroupMember s groups \<longleftrightarrow> (\<exists>g \<in> set groups. g \<in> set (allowedGroups s))))"
  by (auto simp: IsGroupMember_def list_ex_iff)

theorem IsGroupMember_spec_witness:
  "IsGroupMember \<lparr>allowedDomains = [], allowedGroups = [], apiUrl = ''u'',
       allowSignup = True, repos = []\<rparr> [] \<and>
   IsGroupMember \<lparr>allowedDomains = [], allowedGroups = [''ops'', ''dev''], apiUrl = ''u'',
       allowSignup = True, repos = []\<rparr> [''qa'', ''dev''] \<and>
   \<not> IsGroupMember \<lparr>allowedDomains = [], allowedGroups = [''ops'', ''dev''], apiUrl = ''u'',
       allowSignup = True, repos = []\<rparr> [''qa'', ''Dev'']"
  using IsGroupMember_spec [of "\<lparr>allowedDomains = [], allowedGroups = [], apiUrl = ''u'',
          allowSignup = True, repos = []\<rparr>" "[]"]
        IsGroupMember_spec [of "\<lparr>allowedDomains = [], allowedGroups = [''ops'', ''dev''],
          apiUrl = ''u'', allowSignup = True, repos = []\<rparr>" "[''qa'', ''dev'']"]
        IsGroupMember_spec [of "\<lparr>allowedDomains = [], allowedGroups = [''ops'', ''dev''],
          apiUrl = ''u'', allowSignup = True, repos = []\<rparr>" "[''qa'', ''Dev'']"]
  by simp

lemma GetGroups_follows:
  assumes "follows env url w pages w'"
  shows "GetGroups_loop env s groups url w = Some (Return (groups @ concat pages), w')"
  using assms
proof (induction arbitrary: groups rule: follows.induct)
  case (no_next env w)
  show ?case by (subst GetGroups_loop.simps) (simp add: GetGroupsPage_def)
next
  case (request_failed url env w err w')
  then show ?case by (subst GetGroups_loop.simps) (simp add: GetGroupsPage_def)
next
  case (parse_failed url env w response w' err)
  then show ?case by (subst GetGroups_loop.simps) (simp add: GetGroupsPage_def)
next
  case (page url env w response w' gs "next" pages w'' paths)
  have "GetGroupsPage env s url w = (Return (Some paths, next), w')"
    using page.hyps(1-4) page.hyps(6)
    by (auto simp: GetGroupsPage_def next_page_def Let_def split: option.splits list.splits)
  then show ?case
    by (subst GetGroups_loop.simps) (simp add: page.IH)
qed

text \<open>
  C7.  When following the next-page URLs from \<open>apiUrl/groups\<close> fetches the pages \<open>pages\<close>
  and then stops (no next link, a failed request or a body that does not parse), GetGroups
  returns, and what it returns is the concatenation of the pages: page order, then the
  order within the page, nothing removed.
\<close>

theorem GetGroups_concat:
  assumes "follows env (apiUrl s @ ''/groups'') w pages w'"
  shows "GetGroups env s w = Some (Return (concat pages), w')"
  using GetGroups_follows [OF assms, of s "[]"] by (simp add: GetGroups_def)

theorem GetGroups_concat_witness:
  "GetGroups demo_env demo_gitlab demo_world =
     Some (Return [''ops'', ''ops/infra'', ''dev'', ''ops'', ''qa''],
           \<lparr>outside = [],
            trace = [HttpGetCall ''https://gitlab.example/api/v4/groups'',
                     HttpGetCall ''https://gitlab.example/api/v4/groups?page=2'',
                     HttpGetCall ''https://gitlab.example/api/v4/groups?page=3'']\<rparr>)"
proof -
  let ?u1 = "''https://gitlab.example/api/v4/groups''"
  let ?u2 = "''https://gitlab.example/api/v4/groups?page=2''"
  let ?u3 = "''https://gitlab.example/api/v4/groups?page=3''"
  let ?w1 = "\<lparr>outside = [], trace = [HttpGetCall ?u1]\<rparr> :: string list world"
  let ?w2 = "\<lparr>outside = [], trace = [HttpGetCall ?u1, HttpGetCall ?u2]\<rparr> :: string list world"
  let ?w3 = "\<lparr>outside = [], trace = [HttpGetCall ?u1, HttpGetCall ?u2, HttpGetCall ?u3]\<rparr>
               :: string list world"
  have n1: "next_page (case fst (demo_HttpGet ?u1 []) of Inr r \<Rightarrow> r) = Some ?u2"
    by (simp add: demo_HttpGet_def next_page_def demo_link_def match_here_def rel_next_def)
  have n2: "next_page (case fst (demo_HttpGet ?u2 []) of Inr r \<Rightarrow> r) = Some ?u3"
    by (simp add: demo_HttpGet_def next_page_def demo_link_def match_here_def rel_next_def)
  have n3: "next_page (case fst (demo_HttpGet ?u3 []) of Inr r \<Rightarrow> r) = Some []"
    by (simp add: demo_HttpGet_def next_page_def)
  have p3: "follows demo_env ?u3 ?w2 [[''ops'', ''qa'']] ?w3"
    by (rule follows.page [OF _ _ _ n3 follows.no_next])
      (simp add: call_def demo_env_def demo_HttpGet_def demo_Unmarshal_def)+
  have p2: "follows demo_env ?u2 ?w1 [[''dev''], [''ops'', ''qa'']] ?w3"
    by (rule follows.page [OF _ _ _ n2 p3])
      (simp add: call_def demo_env_def demo_HttpGet_def demo_Unmarshal_def)+
  have p1: "follows demo_env (apiUrl demo_gitlab @ ''/groups'') demo_world
              [[''ops'', ''ops/infra''], [''dev''], [''ops'', ''qa'']] ?w3"
    unfolding demo_world_def
    by (rule follows.page [OF _ _ _ n1 p2])
      (simp add: call_def demo_env_def demo_HttpGet_def demo_Unmarshal_def demo_gitlab_def)+
  show ?thesis
    using GetGroups_concat [OF p1] by simp
qed

text \<open>
  C8.  When a ProvisioningRecord exists for the dashboard id, DeleteDashboard returns
  \<open>ErrDashboardCannotDeleteProvisionedDashboard\<close> and the only command it dispatched is
  the provisioning query: no delete command.  DeleteProvisionedDashboard makes no
  provisioning query: for any id it dispatches the delete command, and nothing else, and
  returns what the handler of that command returns.
\<close>

theorem deleteDashboard_provisioned:
  "(on_GetProvisionedDashboardDataById env dashboardId (outside w) = (Inr (Some record), s') \<longrightarrow>
      DeleteDashboard_svc env dashboardId orgId w =
        (Some ErrDashboardCannotDeleteProvisionedDashboard,
         \<lparr>outside = s',
          trace = trace w @ [BusDispatch (GetProvisionedDashboardDataByIdQuery dashboardId)]\<rparr>)) \<and>
   trace (snd (DeleteProvisionedDashboard env dashboardId orgId w)) =
     trace w @ [BusDispatch (DeleteDashboardCommand orgId dashboardId)] \<and>
   (fst (DeleteProvisionedDashboard env dashboardId orgId w),
    outside (snd (DeleteProvisionedDashboard env dashboardId orgId w))) =
     on_DeleteDashboard env orgId dashboardId (outside w)"
  by (auto simp: DeleteDashboard_svc_def DeleteProvisionedDashboard_def deleteDashboard_def
      GetProvisionedDashboardDataByDashboardId_def call_def split: prod.splits)

theorem deleteDashboard_provisioned_witness:
  "DeleteDashboard_svc demo_env 9 1 demo_world =
     (Some ErrDashboardCannotDeleteProvisionedDashboard,
      \<lparr>outside = [], trace = [BusDispatch (GetProvisionedDashboardDataByIdQuery 9)]\<rparr>) \<and>
   DeleteProvisionedDashboard demo_env 9 1 demo_world =
     (None, \<lparr>outside = [], trace = [BusDispatch (DeleteDashboardCommand 1 9)]\<rparr>)"
proof -
  have h: "on_GetProvisionedDashboardDataById demo_env 9 (outside demo_world) =
             (Inr (Some demo_provisioning), [])"
    by (simp add: demo_env_def demo_world_def)
  have "DeleteDashboard_svc demo_env 9 1 demo_world =
     (Some ErrDashboardCannotDeleteProvisionedDashboard,
      \<lparr>outside = [], trace = [BusDispatch (GetProvisionedDashboardDataByIdQuery 9)]\<rparr>)"
    using deleteDashboard_provisioned [of demo_env 9 demo_world demo_provisioning "[]" 1] h
    by (simp add: demo_world_def)
  moreover have "DeleteProvisionedDashboard demo_env 9 1 demo_world =
     (None, \<lparr>outside = [], trace = [BusDispatch (DeleteDashboardCommand 1 9)]\<rparr>)"
    by (simp add: DeleteProvisionedDashboard_def deleteDashboard_def call_def demo_env_def
        demo_world_def)
  ultimately show ?thesis by simp
qed

text \<open>
  C9.  SaveProvisionedDashboard leaves in the request a synthetic admin (user id 0, role
  admin, empty token) whose OrgId is the request's OrgId; SaveFolderForProvisionedDashboards
  leaves the same synthetic admin with OrgId 0.  In both flows every call that names an
  acting user names that admin, and no call goes to the external mirror.
\<close>

theorem provisioned_saves_act_as_synthetic_admin:
  "User (fst (snd (SaveProvisionedDashboard env dto provisioning w))) =
     Some \<lparr>UserId = 0, OrgRole = ROLE_ADMIN, user_OrgId = dto_OrgId dto,
           Token = [], AuthModule = []\<rparr> \<and>
   adds_only (\<lambda>ev. \<not> is_mirror ev \<and>
                 carries_user (Some \<lparr>UserId = 0, OrgRole = ROLE_ADMIN,
                                      user_OrgId = dto_OrgId dto,
                                      Token = [], AuthModule = []\<rparr>) ev)
     w (snd (snd (SaveProvisionedDashboard env dto provisioning w))) \<and>
   User (fst (snd (SaveFolderForProvisionedDashboards env dto w))) =
     Some \<lparr>UserId = 0, OrgRole = ROLE_ADMIN, user_OrgId = 0, Token = [], AuthModule = []\<rparr> \<and>
   adds_only (\<lambda>ev. \<not> is_mirror ev \<and>
                 carries_user (Some \<lparr>UserId = 0, OrgRole = ROLE_ADMIN, user_OrgId = 0,
                                      Token = [], AuthModule = []\<rparr>) ev)
     w (snd (snd (SaveFolderForProvisionedDashboards env dto w)))"
proof -
  obtain r1 d1 w1 where s1: "SaveProvisionedDashboard env dto provisioning w = (r1, d1, w1)"
    using prod_cases3 by blast
  obtain r2 d2 w2 where s2: "SaveFolderForProvisionedDashboards env dto w = (r2, d2, w2)"
    using prod_cases3 by blast
  have p1: "\<And>cmd. is_persist (BusDispatch (SaveProvisionedDashboardCommand cmd provisioning))"
    by simp
  have p2: "\<And>cmd. is_persist (BusDispatch (SaveDashboardCmd cmd))" by simp
  from provisioned_flow [OF s1 [unfolded SaveProvisionedDashboard_def Let_def] p1]
    provisioned_flow [OF s2 [unfolded SaveFolderForProvisionedDashboards_def Let_def] p2]
  show ?thesis by (simp add: s1 s2)
qed

theorem provisioned_saves_act_as_synthetic_admin_witness:
  "User (fst (snd (SaveProvisionedDashboard demo_env demo_request (Some demo_provisioning)
                     demo_world))) =
     Some \<lparr>UserId = 0, OrgRole = ROLE_ADMIN, user_OrgId = 1, Token = [], AuthModule = []\<rparr> \<and>
   list_all (\<lambda>ev. \<not> is_mirror ev)
     (trace (snd (snd (SaveProvisionedDashboard demo_env demo_request (Some demo_provisioning)
                         demo_world)))) \<and>
   User (fst (snd (SaveFolderForProvisionedDashboards demo_env demo_request demo_world))) =
     Some \<lparr>UserId = 0, OrgRole = ROLE_ADMIN, user_OrgId = 0, Token = [], AuthModule = []\<rparr>"
proof -
  have o: "dto_OrgId demo_request = 1" by (simp add: demo_request_def)
  from provisioned_saves_act_as_synthetic_admin
    [of demo_env demo_request "Some demo_provisioning" demo_world]
  show ?thesis
    by (auto simp: o adds_only_def demo_world_def list_all_iff)
qed



end
